theory Spec2Isabelle
  imports Complex_Main "HOL-Library.Word" "HOL-Library.Multiset"
begin

unbundle bit_operations_syntax

section \<open>Python values used by Image\_Processor.py\<close>

text \<open>
  The program is Python 2. Its integers are unbounded (\<open>int\<close>), its strings are byte
  strings (\<open>string\<close>), and an uncaught exception is a value of \<open>py_error\<close>: every
  function that can raise returns a sum, \<open>Inl\<close> carrying the exception.
\<close>

type_synonym path = string
type_synonym bytes = "nat list"

datatype py_error =
    ZeroDivisionError
  | AssertionError
  | IOError
  | OSError
  | UnboundLocalError
  | ValueError
  | AttributeError
  | Exception string

subsection \<open>Strings\<close>

definition digit_char :: "nat \<Rightarrow> char" where
  "digit_char d = ''0123456789'' ! d"

text \<open>\<^verbatim>\<open>str(n)\<close> for a non-negative integer: its decimal digits.\<close>

fun str_nat :: "nat \<Rightarrow> string" where
  "str_nat n = (if n < 10 then [digit_char n] else str_nat (n div 10) @ [digit_char (n mod 10)])"

declare str_nat.simps [simp del]

definition str_int :: "int \<Rightarrow> string" where
  "str_int i = (if i < 0 then CHR ''-'' # str_nat (nat (- i)) else str_nat (nat i))"

text \<open>\<^verbatim>\<open>s.lower()\<close> on a byte string: the ASCII capitals are mapped, nothing else.\<close>

definition lower_char :: "char \<Rightarrow> char" where
  "lower_char c =
     (case map_of (zip ''ABCDEFGHIJKLMNOPQRSTUVWXYZ'' ''abcdefghijklmnopqrstuvwxyz'') c of
        Some l \<Rightarrow> l
      | None \<Rightarrow> c)"

definition lower :: "string \<Rightarrow> string" where
  "lower s = map lower_char s"

definition endswith :: "string \<Rightarrow> string \<Rightarrow> bool" where
  "endswith s suffix = (length suffix \<le> length s \<and> drop (length s - length suffix) s = suffix)"

definition startswith :: "string \<Rightarrow> string \<Rightarrow> bool" where
  "startswith s prefix = (take (length prefix) s = prefix)"

text \<open>\<^verbatim>\<open>s.split(sep)\<close> for a one-character separator; the empty string gives \<^verbatim>\<open>['']\<close>.\<close>

fun split_on :: "char \<Rightarrow> string \<Rightarrow> string list" where
  "split_on sep [] = [[]]"
| "split_on sep (c # cs) =
     (if c = sep then [] # split_on sep cs
      else (case split_on sep cs of
              [] \<Rightarrow> [[c]]
            | piece # pieces \<Rightarrow> (c # piece) # pieces))"

text \<open>\<^verbatim>\<open>s.lstrip(chars)\<close>: drops leading characters that occur in \<open>chars\<close>.\<close>

definition lstrip :: "string \<Rightarrow> string \<Rightarrow> string" where
  "lstrip s chars = dropWhile (\<lambda>c. c \<in> set chars) s"

text \<open>\<^verbatim>\<open>s.rfind(c)\<close>: the last index of \<open>c\<close>, or \<open>-1\<close>.\<close>

fun rfind :: "string \<Rightarrow> char \<Rightarrow> int" where
  "rfind [] c = -1"
| "rfind (x # xs) c =
     (let r = rfind xs c in if 0 \<le> r then r + 1 else if x = c then 0 else -1)"

subsection \<open>Paths (posixpath)\<close>

definition os_path_basename :: "path \<Rightarrow> string" where
  "os_path_basename p = drop (nat (rfind p CHR ''/'' + 1)) p"

definition os_path_dirname :: "path \<Rightarrow> string" where
  "os_path_dirname p =
     (let i = nat (rfind p CHR ''/'' + 1); head = take i p
      in if head \<noteq> [] \<and> head \<noteq> replicate (length head) CHR ''/''
         then rev (dropWhile (\<lambda>c. c = CHR ''/'') (rev head)) else head)"

definition os_path_join :: "path \<Rightarrow> string \<Rightarrow> path" where
  "os_path_join a b =
     (if startswith b ''/'' then b
      else if a = [] \<or> endswith a ''/'' then a @ b
      else a @ ''/'' @ b)"

text \<open>
  \<^verbatim>\<open>os.path.splitext(p)\<close>: the extension starts at the last dot of the last path
  component, unless only dots precede it there.
\<close>

definition os_path_splitext :: "path \<Rightarrow> string \<times> string" where
  "os_path_splitext p =
     (let sepIndex = rfind p CHR ''/'';
          dotIndex = rfind p CHR ''.''
      in if sepIndex < dotIndex \<and>
            (\<exists>c \<in> set (take (nat (dotIndex - (sepIndex + 1))) (drop (nat (sepIndex + 1)) p)).
               c \<noteq> CHR ''.'')
         then (take (nat dotIndex) p, drop (nat dotIndex) p)
         else (p, []))"

subsection \<open>Floating point\<close>

text \<open>
  A finite IEEE-754 double is modelled by the rational number it denotes. Every
  arithmetic operation computes the exact rational result and rounds it to 53
  significant bits, ties to even, as the hardware does. Overflow to infinity and
  subnormal numbers are outside the model; the program only divides counts and sizes.
\<close>

type_synonym pyfloat = rat

text \<open>\<^verbatim>\<open>n.bit_length()\<close> for \<open>n \<ge> 0\<close>.\<close>

function bit_length :: "int \<Rightarrow> int" where
  "bit_length n = (if n \<le> 0 then 0 else 1 + bit_length (n div 2))"
  by pat_completeness auto
termination
  by (relation "measure nat") auto

declare bit_length.simps [simp del]

definition pow2 :: "int \<Rightarrow> rat" where
  "pow2 e = 2 powi e"

text \<open>For \<open>x > 0\<close>: the exponent \<open>e\<close> with \<open>2 ^ e \<le> x < 2 ^ (e + 1)\<close>.\<close>

definition float_exponent :: "rat \<Rightarrow> int" where
  "float_exponent x =
     (let (a, b) = quotient_of x;
          d = bit_length a - bit_length b
      in if pow2 d \<le> x then d else d - 1)"

definition round_half_even :: "rat \<Rightarrow> int" where
  "round_half_even x =
     (let f = \<lfloor>x\<rfloor>; r = x - of_int f
      in if r < 1 / 2 then f
         else if 1 / 2 < r then f + 1
         else if even f then f else f + 1)"

definition round_double :: "rat \<Rightarrow> pyfloat" where
  "round_double x =
     (if x = 0 then 0
      else let ulp = pow2 (float_exponent \<bar>x\<bar> - 52)
           in of_int (round_half_even (x / ulp)) * ulp)"

text \<open>\<^verbatim>\<open>float(n)\<close>, \<^verbatim>\<open>a / b\<close>, \<^verbatim>\<open>a * b\<close>, \<^verbatim>\<open>a + b\<close> and \<^verbatim>\<open>int(x)\<close>.\<close>

definition py_float :: "int \<Rightarrow> pyfloat" where
  "py_float n = round_double (of_int n)"

definition py_float_div :: "pyfloat \<Rightarrow> pyfloat \<Rightarrow> py_error + pyfloat" where
  "py_float_div a b = (if b = 0 then Inl ZeroDivisionError else Inr (round_double (a / b)))"

definition py_float_mul :: "pyfloat \<Rightarrow> pyfloat \<Rightarrow> pyfloat" where
  "py_float_mul a b = round_double (a * b)"

definition py_float_add :: "pyfloat \<Rightarrow> pyfloat \<Rightarrow> pyfloat" where
  "py_float_add a b = round_double (a + b)"

definition py_int :: "pyfloat \<Rightarrow> int" where
  "py_int x = (if 0 \<le> x then \<lfloor>x\<rfloor> else \<lceil>x\<rceil>)"

text \<open>
  \<^verbatim>\<open>"{0:.0f}".format(x)\<close> for \<open>x \<ge> 0\<close>: the decimal digits of \<open>x\<close> rounded to an
  integer, ties to even (the conversion is correctly rounded).
\<close>

definition format_0f :: "pyfloat \<Rightarrow> string" where
  "format_0f x = str_int (round_half_even x)"


section \<open>The outside world\<close>

text \<open>
  What the program reads and writes outside its own objects: regular files (their bytes
  and the \<^verbatim>\<open>S_IWRITE\<close> bit of their mode), directories (the names that
  \<^verbatim>\<open>os.listdir\<close> returns, in that order), the clock read by \<^verbatim>\<open>time.time()\<close>, and
  the sequence of messages sent to the console or to the window.
\<close>

record file_node =
  content :: bytes
  writable :: bool

record dir_node =
  entries :: "string list"
  dir_size :: nat
  dir_writable :: bool

datatype event =
    Print_value pyfloat
  | Print_msg string
  | Frame_status_value pyfloat
  | Frame_status_msg string

record world =
  files :: "path \<rightharpoonup> file_node"
  directories :: "path \<rightharpoonup> dir_node"
  clock :: pyfloat
  events :: "event list"

record stat_result =
  st_size :: nat
  st_mode_write :: bool

definition os_path_exists :: "world \<Rightarrow> path \<Rightarrow> bool" where
  "os_path_exists w p = (files w p \<noteq> None \<or> directories w p \<noteq> None)"

definition os_path_isfile :: "world \<Rightarrow> path \<Rightarrow> bool" where
  "os_path_isfile w p = (files w p \<noteq> None)"

definition os_listdir :: "world \<Rightarrow> path \<Rightarrow> py_error + string list" where
  "os_listdir w p = (case directories w p of None \<Rightarrow> Inl OSError | Some d \<Rightarrow> Inr (entries d))"

definition os_stat :: "world \<Rightarrow> path \<Rightarrow> py_error + stat_result" where
  "os_stat w p =
     (case files w p of
        Some f \<Rightarrow> Inr \<lparr>st_size = length (content f), st_mode_write = writable f\<rparr>
      | None \<Rightarrow>
          (case directories w p of
             Some d \<Rightarrow> Inr \<lparr>st_size = dir_size d, st_mode_write = dir_writable d\<rparr>
           | None \<Rightarrow> Inl OSError))"

text \<open>
  Writing a whole file (\<^verbatim>\<open>open(p, 'w')\<close>, write, close): an existing file needs
  the write bit, a directory cannot be written, a new file is created writable.
\<close>

definition write_file :: "world \<Rightarrow> path \<Rightarrow> bytes \<Rightarrow> py_error + world" where
  "write_file w p data =
     (case files w p of
        Some f \<Rightarrow>
          if writable f then Inr (w\<lparr>files := (files w)(p \<mapsto> f\<lparr>content := data\<rparr>)\<rparr>)
          else Inl IOError
      | None \<Rightarrow>
          if directories w p \<noteq> None then Inl IOError
          else Inr (w\<lparr>files := (files w)(p \<mapsto> \<lparr>content = data, writable = True\<rparr>)\<rparr>))"

subsection \<open>The imaging and XML libraries\<close>

text \<open>
  PIL and the XML modules are not part of the program; they are parameters of the model.
  A decoded image has a mode, a size (width, height) and one sequence of pixel values
  per band (what \<^verbatim>\<open>split()\<close> and \<^verbatim>\<open>getdata()\<close> give). \<open>Image_decode\<close> is
  \<^verbatim>\<open>Image.open\<close> on the bytes of a file (\<open>None\<close>: the bytes are not an image),
  \<open>Image_encode\<close> is the encoder behind \<^verbatim>\<open>Image.save\<close> (chosen from the file
  name, with the \<^verbatim>\<open>optimize\<close> keyword), and \<open>report_xml\<close> is the text that
  ElementTree and minidom produce for the two dictionaries of the log.
\<close>

record pil_image =
  img_mode :: string
  img_size :: "int \<times> int"
  img_split :: "nat list list"

record library =
  Image_decode :: "bytes \<Rightarrow> pil_image option"
  Image_encode :: "path \<Rightarrow> bool \<Rightarrow> pil_image \<Rightarrow> py_error + bytes"
  report_xml :: "(path \<rightharpoonup> (string \<times> string) list) \<Rightarrow>
                 (path \<rightharpoonup> (string \<times> bool \<times> string) list) \<Rightarrow> bytes"

definition Image_open :: "library \<Rightarrow> world \<Rightarrow> path \<Rightarrow> py_error + pil_image" where
  "Image_open lib w p =
     (case files w p of
        None \<Rightarrow> Inl IOError
      | Some f \<Rightarrow> (case Image_decode lib (content f) of None \<Rightarrow> Inl IOError | Some im \<Rightarrow> Inr im))"

definition Image_save :: "library \<Rightarrow> pil_image \<Rightarrow> path \<Rightarrow> bool \<Rightarrow> world \<Rightarrow> py_error + world" where
  "Image_save lib im p optimize w =
     (case Image_encode lib p optimize im of
        Inl e \<Rightarrow> Inl e
      | Inr data \<Rightarrow> write_file w p data)"

section \<open>Image\_Object\<close>

record image_object =
  filename :: path
  image_pil :: "pil_image option"
  is_editable :: bool
  is_open :: bool

type_synonym 'a outcome = "(py_error + 'a) \<times> image_object \<times> world"

definition Image_Object_init :: "world \<Rightarrow> path \<Rightarrow> py_error + image_object" where
  "Image_Object_init w name =
     (if \<not> os_path_exists w name then Inl AssertionError
      else Inr \<lparr>filename = name, image_pil = None, is_editable = False, is_open = False\<rparr>)"

definition update_is_editable :: "image_object \<Rightarrow> world \<Rightarrow> py_error option \<times> image_object" where
  "update_is_editable self w =
     (case os_stat w (filename self) of
        Inl e \<Rightarrow> (Some e, self\<lparr>is_editable := False\<rparr>)
      | Inr file_att \<Rightarrow> (None, self\<lparr>is_editable := st_mode_write file_att\<rparr>))"

definition Image_Object_open :: "library \<Rightarrow> image_object \<Rightarrow> world \<Rightarrow> py_error + image_object" where
  "Image_Object_open lib self w =
     (case Image_open lib w (filename self) of
        Inl e \<Rightarrow> Inl e
      | Inr im \<Rightarrow> Inr (self\<lparr>image_pil := Some im, is_open := True\<rparr>))"

text \<open>
  \<^verbatim>\<open>save(filename = None, **kwargs)\<close>: nothing is written unless the file is
  writable now and the image is open.
\<close>

definition Image_Object_save ::
  "library \<Rightarrow> image_object \<Rightarrow> path option \<Rightarrow> bool \<Rightarrow> world \<Rightarrow> unit outcome" where
  "Image_Object_save lib self name optimize w =
     (case update_is_editable self w of
        (Some e, self1) \<Rightarrow> (Inl e, self1, w)
      | (None, self1) \<Rightarrow>
          if is_editable self1 \<and> is_open self1 then
            (let target = (case name of None \<Rightarrow> filename self1
                           | Some n \<Rightarrow> if n = [] then filename self1 else n)
             in case image_pil self1 of
                  None \<Rightarrow> (Inl AttributeError, self1, w)
                | Some im \<Rightarrow>
                    (case Image_save lib im target optimize w of
                       Inl e \<Rightarrow> (Inl e, self1, w)
                     | Inr w1 \<Rightarrow> (Inr (), self1, w1)))
          else (Inr (), self1, w))"


section \<open>The image actions\<close>

text \<open>
  An action class: its class attributes and its \<^verbatim>\<open>execute\<close> classmethod.
  \<open>class_name\<close> stands for the identity of the class object.
\<close>

record action_class =
  class_name :: string
  action_name :: string
  widget_title :: string
  status_msg :: string
  add_to_ui :: bool
  can_execute :: bool
  execute :: "image_object \<Rightarrow> world \<Rightarrow> (bool \<times> string) outcome"

definition Base_Image_Action_execute :: "image_object \<Rightarrow> world \<Rightarrow> (bool \<times> string) outcome" where
  "Base_Image_Action_execute image_obj w =
     (Inr (False, ''Failed, no test run on file''), image_obj, w)"

definition Base_Image_Action :: action_class where
  "Base_Image_Action =
     \<lparr>class_name = ''Base_Image_Action'',
      action_name = ''base_image_action'',
      widget_title = ''Base Image Action'',
      status_msg = ''Performing empty action on'',
      add_to_ui = True,
      can_execute = False,
      execute = Base_Image_Action_execute\<rparr>"

subsection \<open>Action\_Compress\_PNG\<close>

definition Action_Compress_PNG_execute ::
  "library \<Rightarrow> image_object \<Rightarrow> world \<Rightarrow> (bool \<times> string) outcome" where
  "Action_Compress_PNG_execute lib image_obj w =
     (if endswith (lower (filename image_obj)) ''.png'' then
        (case os_stat w (filename image_obj) of
           Inl e \<Rightarrow> (Inl e, image_obj, w)
         | Inr file_stats \<Rightarrow>
             (let original_file_size = int (st_size file_stats)
              in case (if \<not> is_open image_obj then Image_Object_open lib image_obj w
                       else Inr image_obj) of
                   Inl e \<Rightarrow> (Inl e, image_obj, w)
                 | Inr image_obj1 \<Rightarrow>
                     (case Image_Object_save lib image_obj1 None True w of
                        (Inl e, image_obj2, w2) \<Rightarrow> (Inl e, image_obj2, w2)
                      | (Inr u, image_obj2, w2) \<Rightarrow>
                          (case os_stat w2 (filename image_obj2) of
                             Inl e \<Rightarrow> (Inl e, image_obj2, w2)
                           | Inr file_stats2 \<Rightarrow>
                               (let new_file_size = int (st_size file_stats2);
                                    file_size_diff = original_file_size - new_file_size
                                in if 0 < file_size_diff then
                                     (case py_float_div (py_float file_size_diff) 1024 of
                                        Inl e \<Rightarrow> (Inl e, image_obj2, w2)
                                      | Inr kb \<Rightarrow>
                                          (let kb_raw = str_int (py_int (py_float_mul kb (py_float 100)));
                                               kb_str = take (length kb_raw - 2) kb_raw @ ''.'' @
                                                        drop (length kb_raw - 2) kb_raw;
                                               report_msg = ''Compression saved '' @ kb_str @ '' kbs on disk''
                                           in (Inr (True, report_msg), image_obj2, w2)))
                                   else if file_size_diff = 0 then
                                     (Inr (False, ''Compression did not save any memory on disk''),
                                      image_obj2, w2)
                                   else
                                     (Inr (False, ''Failed to complete the action for unknown reasons''),
                                      image_obj2, w2))))))
      else
        (Inr (False, os_path_basename (filename image_obj) @ '' is not a PNG file''), image_obj, w))"

definition Action_Compress_PNG :: "library \<Rightarrow> action_class" where
  "Action_Compress_PNG lib =
     Base_Image_Action
       \<lparr>class_name := ''Action_Compress_PNG'',
        action_name := ''compress_png'',
        widget_title := ''Compress PNGs'',
        status_msg := ''Compressing '',
        add_to_ui := True,
        can_execute := True,
        execute := Action_Compress_PNG_execute lib\<rparr>"

subsection \<open>Action\_Check\_Power\_Of\_2\<close>

definition Action_Check_Power_Of_2_execute ::
  "library \<Rightarrow> image_object \<Rightarrow> world \<Rightarrow> (bool \<times> string) outcome" where
  "Action_Check_Power_Of_2_execute lib image_obj w =
     (case (if \<not> is_open image_obj then Image_Object_open lib image_obj w else Inr image_obj) of
        Inl e \<Rightarrow> (Inl e, image_obj, w)
      | Inr image_obj1 \<Rightarrow>
          (case image_pil image_obj1 of
             None \<Rightarrow> (Inl AttributeError, image_obj1, w)
           | Some im \<Rightarrow>
               (let (wd, ht) = img_size im;
                    w_pow = (wd \<noteq> 0 \<and> (wd AND (wd - 1)) = 0);
                    h_pow = (ht \<noteq> 0 \<and> (ht AND (ht - 1)) = 0)
                in if w_pow \<and> h_pow then
                     (Inr (True, ''Width:'' @ str_int wd @ '' and Height:'' @ str_int ht @
                                 '' are both a proper power of 2''), image_obj1, w)
                   else
                     (Inr (False, ''Either Width:'' @ str_int wd @ '' or Height:'' @ str_int ht @
                                  '' is NOT a proper power of 2''), image_obj1, w))))"

definition Action_Check_Power_Of_2 :: "library \<Rightarrow> action_class" where
  "Action_Check_Power_Of_2 lib =
     Base_Image_Action
       \<lparr>class_name := ''Action_Check_Power_Of_2'',
        action_name := ''check_power_of_2'',
        widget_title := ''Check Power of 2'',
        status_msg := ''Checking Power of 2 on'',
        execute := Action_Check_Power_Of_2_execute lib\<rparr>"

subsection \<open>Action\_Verify\_PBR\_Values\<close>

text \<open>
  The channel variables are assigned only for the modes \<^verbatim>\<open>RGB\<close> and \<^verbatim>\<open>RGBA\<close>;
  \<open>split_red\<close> is the value of \<^verbatim>\<open>red\<close> after the two \<^verbatim>\<open>if\<close> statements
  (\<open>Inr None\<close>: still unbound; \<open>Inl\<close>: the tuple assignment itself failed).
\<close>

definition split_red :: "pil_image \<Rightarrow> py_error + nat list option" where
  "split_red im =
     (case (if img_mode im = ''RGB'' then
              (case img_split im of
                 [red, green, blue] \<Rightarrow> Inr (Some red)
               | _ \<Rightarrow> Inl ValueError)
            else Inr None) of
        Inl e \<Rightarrow> Inl e
      | Inr red0 \<Rightarrow>
          if img_mode im = ''RGBA'' then
            (case img_split im of
               [red, green, blue, alpha] \<Rightarrow> Inr (Some red)
             | _ \<Rightarrow> Inl ValueError)
          else Inr red0)"

definition Action_Verify_PBR_Values_execute ::
  "library \<Rightarrow> image_object \<Rightarrow> world \<Rightarrow> (bool \<times> string) outcome" where
  "Action_Verify_PBR_Values_execute lib image_obj w =
     (case (if \<not> is_open image_obj then Image_Object_open lib image_obj w else Inr image_obj) of
        Inl e \<Rightarrow> (Inl e, image_obj, w)
      | Inr image_obj1 \<Rightarrow>
          (case image_pil image_obj1 of
             None \<Rightarrow> (Inl AttributeError, image_obj1, w)
           | Some im \<Rightarrow>
               (case split_red im of
                  Inl e \<Rightarrow> (Inl e, image_obj1, w)
                | Inr red \<Rightarrow>
                    if endswith (lower (filename image_obj1)) ''_mra.png'' then
                      (case red of
                         None \<Rightarrow> (Inl UnboundLocalError, image_obj1, w)
                       | Some red_data \<Rightarrow>
                           (let bad_pixels = length (filter (\<lambda>pixel. 0 < pixel \<and> pixel < 255) red_data)
                            in if 0 < bad_pixels then
                                 (case py_float_div (py_float (int bad_pixels))
                                         (py_float (int (length red_data))) of
                                    Inl e \<Rightarrow> (Inl e, image_obj1, w)
                                  | Inr ratio \<Rightarrow>
                                      (let perc_str0 = format_0f (py_float_mul ratio 100);
                                           perc_str = (if perc_str0 = ''0'' then ''Less than '' @ perc_str0
                                                       else perc_str0)
                                       in (Inr (False, perc_str @
                                             ''% of the pixels in the red channel are not valid METAL values''),
                                           image_obj1, w)))
                               else (Inr (True, ''Passed all PBR validation tests''), image_obj1, w)))
                    else (Inr (True, ''Passed all PBR validation tests''), image_obj1, w))))"

definition Action_Verify_PBR_Values :: "library \<Rightarrow> action_class" where
  "Action_Verify_PBR_Values lib =
     Base_Image_Action
       \<lparr>class_name := ''Action_Verify_PBR_Values'',
        action_name := ''verify_pbr_values'',
        widget_title := ''Verify PBR Values'',
        status_msg := ''Verifying PBR Values on'',
        execute := Action_Verify_PBR_Values_execute lib\<rparr>"

text \<open>\<^verbatim>\<open>Base_Image_Action.__subclasses__()\<close> of the program as it stands.\<close>

definition subclasses_of_Base_Image_Action :: "library \<Rightarrow> action_class list" where
  "subclasses_of_Base_Image_Action lib =
     [Action_Compress_PNG lib, Action_Check_Power_Of_2 lib, Action_Verify_PBR_Values lib]"


section \<open>Log\_File\<close>

record log_file =
  log_filename :: path
  file_results :: "path \<rightharpoonup> (string \<times> bool \<times> string) list"
  file_fails :: "path \<rightharpoonup> (string \<times> string) list"
  save_log :: bool
  start_time :: pyfloat
  end_time :: pyfloat
  completed :: bool

definition Log_File_init :: "path \<Rightarrow> log_file" where
  "Log_File_init name =
     \<lparr>log_filename = name, file_results = Map.empty, file_fails = Map.empty, save_log = True,
      start_time = 0, end_time = 0, completed = False\<rparr>"

definition clear :: "log_file \<Rightarrow> log_file" where
  "clear self = self\<lparr>file_results := Map.empty, file_fails := Map.empty\<rparr>"

definition set_filename :: "log_file \<Rightarrow> path \<Rightarrow> log_file" where
  "set_filename self name = self\<lparr>log_filename := name\<rparr>"

definition add_file_fail :: "log_file \<Rightarrow> path \<Rightarrow> string \<Rightarrow> string \<Rightarrow> log_file" where
  "add_file_fail self name act results =
     (case file_fails self name of
        Some found \<Rightarrow> self\<lparr>file_fails := (file_fails self)(name \<mapsto> found @ [(act, results)])\<rparr>
      | None \<Rightarrow> self\<lparr>file_fails := (file_fails self)(name \<mapsto> [(act, results)])\<rparr>)"

definition add_file_result :: "log_file \<Rightarrow> path \<Rightarrow> string \<Rightarrow> bool \<Rightarrow> string \<Rightarrow> log_file" where
  "add_file_result self name act success results =
     (case file_results self name of
        Some found \<Rightarrow>
          self\<lparr>file_results := (file_results self)(name \<mapsto> found @ [(act, success, results)])\<rparr>
      | None \<Rightarrow> self\<lparr>file_results := (file_results self)(name \<mapsto> [(act, success, results)])\<rparr>)"

text \<open>
  \<^verbatim>\<open>save\<close>: when \<open>save_log\<close> is set, the XML text of the two dictionaries is written
  to \<open>log_filename\<close>.
\<close>

definition Log_File_save :: "library \<Rightarrow> log_file \<Rightarrow> world \<Rightarrow> py_error + world" where
  "Log_File_save lib self w =
     (if save_log self
      then write_file w (log_filename self) (report_xml lib (file_fails self) (file_results self))
      else Inr w)"

section \<open>Image\_Batch\<close>

text \<open>
  The window, as far as the batch sees it: whether it has the two callbacks that
  \<^verbatim>\<open>hasattr\<close> looks for.
\<close>

record frame_obj =
  has_update_status_value :: bool
  has_update_status_msg :: bool

record image_batch =
  headless :: bool
  frame :: "frame_obj option"
  dirs :: "path list"
  extensions :: "string list"
  actions :: "string list option"
  batch_log :: log_file
  batch_save_log :: bool
  status_value :: pyfloat
  status_incr :: pyfloat
  log_filepath :: path

definition LOG_FILE_DEFAULT_NAME :: string where
  "LOG_FILE_DEFAULT_NAME = ''Batch_Image_Processor_Report''"

text \<open>\<open>script_file\<close> is \<^verbatim>\<open>__file__\<close>; the result is the new \<open>log_filepath\<close>.\<close>

definition choose_log_filepath :: "path \<Rightarrow> world \<Rightarrow> path option \<Rightarrow> path" where
  "choose_log_filepath script_file w name =
     (case name of
        None \<Rightarrow> os_path_join (os_path_dirname script_file) (LOG_FILE_DEFAULT_NAME @ ''.xml'')
      | Some n \<Rightarrow>
          if n = [] \<or> \<not> os_path_exists w (os_path_dirname n)
          then os_path_join (os_path_dirname script_file) (LOG_FILE_DEFAULT_NAME @ ''.xml'')
          else n)"

definition set_log_filepath :: "path \<Rightarrow> world \<Rightarrow> image_batch \<Rightarrow> path option \<Rightarrow> image_batch" where
  "set_log_filepath script_file w self name =
     (let p = choose_log_filepath script_file w name
      in self\<lparr>log_filepath := p, batch_log := set_filename (batch_log self) p\<rparr>)"

definition set_save_log :: "image_batch \<Rightarrow> bool \<Rightarrow> image_batch" where
  "set_save_log self v = self\<lparr>batch_save_log := v, batch_log := (batch_log self)\<lparr>save_log := v\<rparr>\<rparr>"

text \<open>
  \<^verbatim>\<open>get_image_files\<close>: the regular files of the directory whose extension, dots
  removed, is one of \<open>extensions\<close>; nothing for a path that does not exist.
\<close>

definition get_image_files :: "image_batch \<Rightarrow> path \<Rightarrow> world \<Rightarrow> py_error + path list" where
  "get_image_files self directory w =
     (if os_path_exists w directory then
        (case os_listdir w directory of
           Inl e \<Rightarrow> Inl e
         | Inr names \<Rightarrow>
             (let all_files = [os_path_join directory f. f \<leftarrow> names,
                                os_path_isfile w (os_path_join directory f)];
                  files = [f \<leftarrow> all_files.
                             filter (\<lambda>c. c \<noteq> CHR ''.'') (snd (os_path_splitext f)) \<in> set (extensions self)]
              in Inr files))
      else Inr [])"

fun count_image_files :: "image_batch \<Rightarrow> path list \<Rightarrow> world \<Rightarrow> int \<Rightarrow> py_error + int" where
  "count_image_files self [] w file_count = Inr file_count"
| "count_image_files self (directory # rest) w file_count =
     (case get_image_files self directory w of
        Inl e \<Rightarrow> Inl e
      | Inr fs \<Rightarrow> count_image_files self rest w (file_count + int (length fs)))"

definition update_status_incr :: "image_batch \<Rightarrow> world \<Rightarrow> py_error + image_batch" where
  "update_status_incr self w =
     (case count_image_files self (dirs self) w 0 of
        Inl e \<Rightarrow> Inl e
      | Inr file_count \<Rightarrow>
          (case py_float_div 100 (py_float file_count) of
             Inl e \<Rightarrow> Inl e
           | Inr incr \<Rightarrow> Inr (self\<lparr>status_incr := incr\<rparr>)))"

definition update_status_value :: "image_batch \<Rightarrow> pyfloat option \<Rightarrow> world \<Rightarrow> image_batch \<times> world" where
  "update_status_value self v w =
     (let val = (case v of None \<Rightarrow> py_float_add (status_value self) (status_incr self) | Some x \<Rightarrow> x);
          self1 = self\<lparr>status_value := val\<rparr>
      in if headless self1 then (self1, w\<lparr>events := events w @ [Print_value val]\<rparr>)
         else (case frame self1 of
                 Some f \<Rightarrow>
                   if has_update_status_value f
                   then (self1, w\<lparr>events := events w @ [Frame_status_value val]\<rparr>)
                   else (self1, w)
               | None \<Rightarrow> (self1, w)))"

definition update_status_msg :: "image_batch \<Rightarrow> string \<Rightarrow> world \<Rightarrow> world" where
  "update_status_msg self msg w =
     (if headless self then w\<lparr>events := events w @ [Print_msg msg]\<rparr>
      else (case frame self of
              Some f \<Rightarrow>
                if has_update_status_msg f then w\<lparr>events := events w @ [Frame_status_msg msg]\<rparr> else w
            | None \<Rightarrow> w))"

text \<open>
  \<^verbatim>\<open>get_subclass_actions_to_perform\<close>. \<open>subclasses\<close> is
  \<^verbatim>\<open>Base_Image_Action.__subclasses__()\<close>. The test \<^verbatim>\<open>if self.actions:\<close> is Python
  truth: \<^verbatim>\<open>None\<close> and the empty list are both false. \<^verbatim>\<open>list(set(actions))\<close> keeps
  one copy of each class object, in the iteration order of the set, which Python leaves
  open: \<open>set_order\<close> is that order, a parameter.
\<close>

definition get_subclass_actions_to_perform ::
  "(action_class list \<Rightarrow> action_class list) \<Rightarrow> action_class list \<Rightarrow> image_batch \<Rightarrow> action_class list" where
  "get_subclass_actions_to_perform set_order subclasses self =
     (let chosen = [sub_class \<leftarrow> subclasses.
                     (case actions self of
                        Some ids \<Rightarrow>
                          if ids \<noteq> [] then action_name sub_class \<in> set ids
                          else can_execute sub_class
                      | None \<Rightarrow> can_execute sub_class)]
      in set_order (remdups chosen))"

subsection \<open>The batch run\<close>

text \<open>
  The three nested loops of \<^verbatim>\<open>start\<close>, innermost first. Nothing in them catches an
  exception: the first \<open>Inl\<close> ends every loop, and the state reached so far is returned
  with it.
\<close>

fun run_actions ::
  "image_batch \<Rightarrow> action_class list \<Rightarrow> image_object \<Rightarrow> world \<Rightarrow>
   py_error option \<times> image_batch \<times> image_object \<times> world" where
  "run_actions self [] image_obj w = (None, self, image_obj, w)"
| "run_actions self (sub_class # rest) image_obj w =
     (let w1 = update_status_msg self
                 (status_msg sub_class @ '': '' @ os_path_basename (filename image_obj)) w
      in case execute sub_class image_obj w1 of
           (Inl e, image_obj1, w2) \<Rightarrow> (Some e, self, image_obj1, w2)
         | (Inr (success, results), image_obj1, w2) \<Rightarrow>
             (let log1 = add_file_result (batch_log self) (filename image_obj1)
                           (action_name sub_class) success results;
                  log2 = (if \<not> success
                          then add_file_fail log1 (filename image_obj1) (action_name sub_class) results
                          else log1)
              in run_actions (self\<lparr>batch_log := log2\<rparr>) rest image_obj1 w2))"

fun run_files ::
  "image_batch \<Rightarrow> action_class list \<Rightarrow> path list \<Rightarrow> world \<Rightarrow>
   py_error option \<times> image_batch \<times> world" where
  "run_files self acts [] w = (None, self, w)"
| "run_files self acts (image_file # rest) w =
     (case update_status_value self None w of
        (self1, w1) \<Rightarrow>
          (case Image_Object_init w1 image_file of
             Inl e \<Rightarrow> (Some e, self1, w1)
           | Inr image_obj \<Rightarrow>
               (case run_actions self1 acts image_obj w1 of
                  (Some e, self2, image_obj1, w2) \<Rightarrow> (Some e, self2, w2)
                | (None, self2, image_obj1, w2) \<Rightarrow> run_files self2 acts rest w2)))"

fun run_dirs ::
  "image_batch \<Rightarrow> action_class list \<Rightarrow> path list \<Rightarrow> world \<Rightarrow>
   py_error option \<times> image_batch \<times> world" where
  "run_dirs self acts [] w = (None, self, w)"
| "run_dirs self acts (directory # rest) w =
     (case get_image_files self directory w of
        Inl e \<Rightarrow> (Some e, self, w)
      | Inr image_files \<Rightarrow>
          (case run_files self acts image_files w of
             (Some e, self1, w1) \<Rightarrow> (Some e, self1, w1)
           | (None, self1, w1) \<Rightarrow> run_dirs self1 acts rest w1))"

text \<open>The end of \<^verbatim>\<open>start\<close>, after the loops: the only place that saves the log.\<close>

definition finish :: "library \<Rightarrow> image_batch \<Rightarrow> world \<Rightarrow> py_error option \<times> image_batch \<times> world" where
  "finish lib self w =
     (let self1 = self\<lparr>batch_log := (batch_log self)\<lparr>end_time := clock w, completed := True\<rparr>\<rparr>
      in case Log_File_save lib (batch_log self1) w of
           Inl e \<Rightarrow> (Some e, self1, w)
         | Inr w1 \<Rightarrow>
             (case update_status_value self1 (Some 100) w1 of
                (self2, w2) \<Rightarrow> (None, self2, update_status_msg self2 ''Batch Completed'' w2)))"

definition start ::
  "library \<Rightarrow> (action_class list \<Rightarrow> action_class list) \<Rightarrow> action_class list \<Rightarrow>
   image_batch \<Rightarrow> world \<Rightarrow> py_error option \<times> image_batch \<times> world" where
  "start lib set_order subclasses self w =
     (let self1 = self\<lparr>batch_log := clear (batch_log self)\<rparr>
      in case update_status_incr self1 w of
           Inl e \<Rightarrow> (Some e, self1, w)
         | Inr self2 \<Rightarrow>
             (case update_status_value self2 (Some 0) w of
                (self3, w3) \<Rightarrow>
                  (let self4 = self3\<lparr>batch_log := (batch_log self3)\<lparr>start_time := clock w3\<rparr>\<rparr>;
                       acts = get_subclass_actions_to_perform set_order subclasses self4
                   in case run_dirs self4 acts (dirs self4) w3 of
                        (Some e, self5, w5) \<Rightarrow> (Some e, self5, w5)
                      | (None, self5, w5) \<Rightarrow> finish lib self5 w5)))"

text \<open>\<^verbatim>\<open>Image_Batch(...)\<close>: the constructor, which starts the run when asked to.\<close>

definition Image_Batch_init ::
  "library \<Rightarrow> (action_class list \<Rightarrow> action_class list) \<Rightarrow> action_class list \<Rightarrow> path \<Rightarrow>
   bool \<Rightarrow> frame_obj option \<Rightarrow> path list \<Rightarrow> path option \<Rightarrow> string list \<Rightarrow>
   string list option \<Rightarrow> bool \<Rightarrow> world \<Rightarrow> py_error option \<times> image_batch \<times> world" where
  "Image_Batch_init lib set_order subclasses script_file hl fr ds name exts acts auto_start w =
     (let p = choose_log_filepath script_file w name;
          self = \<lparr>headless = hl, frame = fr, dirs = ds, extensions = exts, actions = acts,
                  batch_log = Log_File_init p, batch_save_log = True,
                  status_value = 0, status_incr = 0, log_filepath = p\<rparr>
      in if auto_start then start lib set_order subclasses self w else (None, self, w))"

section \<open>The command line\<close>

text \<open>
  The first half of \<^verbatim>\<open>run\<close>: what the argument loop leaves in \<open>headless\<close>,
  \<open>dirs\<close>, \<open>extensions\<close>, \<open>actions\<close> and \<open>log_filepath\<close>.
\<close>

record arguments =
  arg_headless :: bool
  arg_dirs :: "string list"
  arg_extensions :: "string list"
  arg_actions :: "string list option"
  arg_log_filepath :: string

definition ARG_HEADLESS :: string where "ARG_HEADLESS = ''-headless''"
definition ARG_DIRS :: string where "ARG_DIRS = ''-dirs=''"
definition ARG_LOG_FILEPATH :: string where "ARG_LOG_FILEPATH = ''-logfile=''"
definition ARG_EXTENTIONS :: string where "ARG_EXTENTIONS = ''-exts=''"
definition ARG_ACTIONS :: string where "ARG_ACTIONS = ''-actions=''"

definition run_argument :: "arguments \<Rightarrow> string \<Rightarrow> arguments" where
  "run_argument a arg =
     (let a1 = (if startswith arg ARG_DIRS
                then a\<lparr>arg_dirs := split_on CHR '','' (drop (length ARG_DIRS) arg)\<rparr> else a);
          a2 = (if startswith arg ARG_EXTENTIONS
                then a1\<lparr>arg_extensions := split_on CHR '','' (drop (length ARG_EXTENTIONS) arg)\<rparr> else a1);
          a3 = (if startswith arg ARG_ACTIONS
                then a2\<lparr>arg_actions := Some (split_on CHR '','' (drop (length ARG_ACTIONS) arg))\<rparr> else a2)
      in if startswith arg ARG_LOG_FILEPATH
         then a3\<lparr>arg_log_filepath := lstrip arg ARG_LOG_FILEPATH\<rparr> else a3)"

definition run_arguments :: "string list \<Rightarrow> arguments" where
  "run_arguments argv =
     fold (\<lambda>arg a. run_argument a arg) argv
       \<lparr>arg_headless = (ARG_HEADLESS \<in> set argv), arg_dirs = [], arg_extensions = [],
        arg_actions = None, arg_log_filepath = []\<rparr>"

section \<open>The invariant of the report\<close>

text \<open>
  \<^verbatim>\<open>file_results.get(name, [])\<close> and \<^verbatim>\<open>file_fails.get(name, [])\<close>; the invariant
  says that, for every file, the failures are the results that did not pass, in the
  same order and with nothing else.
\<close>

definition results_for :: "log_file \<Rightarrow> path \<Rightarrow> (string \<times> bool \<times> string) list" where
  "results_for lg name = (case file_results lg name of None \<Rightarrow> [] | Some found \<Rightarrow> found)"

definition fails_for :: "log_file \<Rightarrow> path \<Rightarrow> (string \<times> string) list" where
  "fails_for lg name = (case file_fails lg name of None \<Rightarrow> [] | Some found \<Rightarrow> found)"

definition report_invariant :: "log_file \<Rightarrow> bool" where
  "report_invariant lg \<longleftrightarrow>
     (\<forall>name. fails_for lg name = [(act, msg). (act, passed, msg) \<leftarrow> results_for lg name, \<not> passed])"


section \<open>Example inputs\<close>

text \<open>
  Small concrete inputs on which the theorems below are instantiated: a library whose
  decoder always yields the image \<open>im\<close> and whose encoder always writes \<open>n\<close> bytes, a
  disk with one writable file of \<open>n\<close> bytes, a fresh image object, a fresh batch with
  neither console nor window, and a disk with a directory \<^verbatim>\<open>tex\<close> of two image files.
\<close>

definition example_image :: "string \<Rightarrow> int \<Rightarrow> int \<Rightarrow> nat list \<Rightarrow> pil_image" where
  "example_image m wd ht red =
     \<lparr>img_mode = m, img_size = (wd, ht),
      img_split = (if m = ''RGB'' then [red, red, red]
                   else if m = ''RGBA'' then [red, red, red, red] else [red])\<rparr>"

definition example_library :: "pil_image \<Rightarrow> nat \<Rightarrow> library" where
  "example_library im n =
     \<lparr>Image_decode = (\<lambda>data. Some im),
      Image_encode = (\<lambda>p optimize i. Inr (replicate n 0)),
      report_xml = (\<lambda>fails results. [])\<rparr>"

definition example_world :: "path \<Rightarrow> nat \<Rightarrow> world" where
  "example_world p n =
     \<lparr>files = [p \<mapsto> \<lparr>content = replicate n 0, writable = True\<rparr>],
      directories = Map.empty, clock = 0, events = []\<rparr>"

definition example_object :: "path \<Rightarrow> image_object" where
  "example_object p = \<lparr>filename = p, image_pil = None, is_editable = False, is_open = False\<rparr>"

definition example_batch :: "path list \<Rightarrow> string list option \<Rightarrow> image_batch" where
  "example_batch ds acts =
     \<lparr>headless = False, frame = None, dirs = ds, extensions = [''png''], actions = acts,
      batch_log = Log_File_init ''report.xml'', batch_save_log = True,
      status_value = 0, status_incr = 0, log_filepath = ''report.xml''\<rparr>"

definition example_tree :: world where
  "example_tree =
     \<lparr>files = [''tex/x_mra.png'' \<mapsto> \<lparr>content = replicate 20 0, writable = True\<rparr>,
               ''tex/y.png'' \<mapsto> \<lparr>content = replicate 20 0, writable = True\<rparr>],
      directories = [''tex'' \<mapsto> \<lparr>entries = [''x_mra.png'', ''y.png''], dir_size = 0, dir_writable = True\<rparr>],
      clock = 0, events = []\<rparr>"

section \<open>Facts about the Python values\<close>

lemma bit_length_nonneg: "0 \<le> bit_length n"
  by (induction n rule: bit_length.induct) (simp add: bit_length.simps)

lemma bit_length_pos: "0 < n \<Longrightarrow> 1 \<le> bit_length n"
  using bit_length_nonneg [of "n div 2"] by (simp add: bit_length.simps)

lemma bit_length_bounds:
  "0 < n \<Longrightarrow> 2 ^ nat (bit_length n - 1) \<le> n \<and> n < 2 ^ nat (bit_length n)"
proof (induction n rule: bit_length.induct)
  case (1 n)
  show ?case
  proof (cases "n = 1")
    case True
    then show ?thesis by (simp add: bit_length.simps)
  next
    case False
    with "1.prems" have m: "0 < n div 2" by simp
    from "1.prems" have bl: "bit_length n = 1 + bit_length (n div 2)"
      by (simp add: bit_length.simps)
    from "1.IH" "1.prems" m
    have ih: "2 ^ nat (bit_length (n div 2) - 1) \<le> n div 2" "n div 2 < 2 ^ nat (bit_length (n div 2))"
      by simp_all
    from bit_length_pos [OF m]
    have k: "nat (bit_length (n div 2)) = Suc (nat (bit_length (n div 2) - 1))"
      by simp
    have "(2::int) ^ nat (bit_length n - 1) = 2 * 2 ^ nat (bit_length (n div 2) - 1)"
      using k bl by simp
    also have "\<dots> \<le> 2 * (n div 2)"
      using ih(1) by simp
    also have "\<dots> \<le> n" by simp
    finally have lo: "(2::int) ^ nat (bit_length n - 1) \<le> n" .
    have "nat (bit_length n) = Suc (nat (bit_length (n div 2)))"
      using bl bit_length_nonneg [of "n div 2"] by simp
    then have "(2::int) ^ nat (bit_length n) = 2 * 2 ^ nat (bit_length (n div 2))"
      by simp
    moreover have "n < 2 * (n div 2 + 1)" by presburger
    moreover have "n div 2 + 1 \<le> 2 ^ nat (bit_length (n div 2))"
      using ih(2) by simp
    ultimately have hi: "n < 2 ^ nat (bit_length n)"
      by linarith
    from lo hi show ?thesis ..
  qed
qed

lemma pow2_pos: "0 < pow2 e"
  by (simp add: pow2_def)

lemma pow2_add: "pow2 (a + b) = pow2 a * pow2 b"
  by (simp add: pow2_def power_int_add)

lemma pow2_diff: "pow2 (a - b) = pow2 a / pow2 b"
  by (simp add: pow2_def power_int_diff)

lemma pow2_nat: "0 \<le> e \<Longrightarrow> pow2 e = 2 ^ nat e"
  by (simp add: pow2_def power_int_def)

lemma pow2_mono: "a \<le> b \<Longrightarrow> pow2 a \<le> pow2 b"
  by (simp add: pow2_def power_int_increasing)

lemma bit_length_bounds_rat:
  assumes "0 < n"
  shows "pow2 (bit_length n - 1) \<le> of_int n" and "of_int n < pow2 (bit_length n)"
proof -
  from bit_length_bounds [OF assms]
  have lo: "(2::int) ^ nat (bit_length n - 1) \<le> n" and hi: "n < 2 ^ nat (bit_length n)"
    by simp_all
  have "rat_of_int (2 ^ nat (bit_length n - 1)) \<le> rat_of_int n"
    using lo by (simp only: of_int_le_iff)
  moreover have "pow2 (bit_length n - 1) = rat_of_int (2 ^ nat (bit_length n - 1))"
    using bit_length_pos [OF assms] by (simp add: pow2_nat)
  ultimately show "pow2 (bit_length n - 1) \<le> of_int n" by simp
  have "rat_of_int n < rat_of_int (2 ^ nat (bit_length n))"
    using hi by (simp only: of_int_less_iff)
  moreover have "pow2 (bit_length n) = rat_of_int (2 ^ nat (bit_length n))"
    using bit_length_nonneg [of n] by (simp add: pow2_nat)
  ultimately show "of_int n < pow2 (bit_length n)" by simp
qed

lemma float_exponent_bounds:
  assumes "0 < x"
  shows "pow2 (float_exponent x) \<le> x \<and> x < pow2 (float_exponent x + 1)"
proof -
  obtain a b where q: "quotient_of x = (a, b)" by (cases "quotient_of x")
  then have b: "0 < b" and x: "x = of_int a / of_int b"
    by (auto simp: quotient_of_denom_pos quotient_of_div)
  from assms x b have a: "0 < a"
    by (simp add: zero_less_divide_iff)
  define la where "la = bit_length a"
  define lb where "lb = bit_length b"
  note ra = bit_length_bounds_rat [OF a, folded la_def]
  note rb = bit_length_bounds_rat [OF b, folded lb_def]
  have bpos: "(0::rat) < of_int b" using b by simp
  have lo: "pow2 (la - lb - 1) < x"
  proof -
    have "pow2 (la - lb - 1) * of_int b < pow2 (la - lb - 1) * pow2 lb"
      using rb(2) pow2_pos [of "la - lb - 1"] by (simp only: mult_less_cancel_left_pos)
    also have "\<dots> = pow2 (la - 1)"
      by (simp flip: pow2_add)
    also have "\<dots> \<le> of_int a" by (rule ra(1))
    finally show ?thesis
      using bpos by (simp add: x pos_less_divide_eq)
  qed
  have hi: "x < pow2 (la - lb + 1)"
  proof -
    have "of_int a < pow2 la" by (rule ra(2))
    also have "\<dots> = pow2 (la - lb + 1) * pow2 (lb - 1)"
      by (simp flip: pow2_add)
    also have "\<dots> \<le> pow2 (la - lb + 1) * of_int b"
      using rb(1) pow2_pos [of "la - lb + 1"] by (simp only: mult_le_cancel_left_pos)
    finally show ?thesis
      using bpos by (simp add: x pos_divide_less_eq)
  qed
  have fe: "float_exponent x = (if pow2 (la - lb) \<le> x then la - lb else la - lb - 1)"
    by (simp add: float_exponent_def q la_def lb_def)
  show ?thesis
  proof (cases "pow2 (la - lb) \<le> x")
    case True
    with fe hi show ?thesis by simp
  next
    case False
    with fe lo show ?thesis by simp
  qed
qed

lemma round_half_even_ge_floor: "\<lfloor>y\<rfloor> \<le> round_half_even y"
  by (simp add: round_half_even_def Let_def)

lemma round_half_even_le: "round_half_even y \<le> \<lfloor>y\<rfloor> + 1"
  by (simp add: round_half_even_def Let_def)

lemma round_half_even_of_int: "round_half_even (of_int k) = k"
  by (simp add: round_half_even_def Let_def)

lemma round_double_pos:
  assumes "0 < x"
  shows "0 < round_double x"
proof -
  define e where "e = float_exponent x"
  define ulp where "ulp = pow2 (e - 52)"
  have ulp: "0 < ulp" by (simp add: ulp_def pow2_pos)
  from float_exponent_bounds [OF assms] have "pow2 e \<le> x" by (simp add: e_def)
  then have "pow2 e / ulp \<le> x / ulp"
    using ulp by (simp add: divide_right_mono)
  moreover have "pow2 e / ulp = pow2 52"
    by (simp add: ulp_def flip: pow2_diff)
  moreover have "(1::rat) \<le> pow2 52" by (simp add: pow2_def)
  ultimately have "1 \<le> x / ulp" by simp
  then have "1 \<le> \<lfloor>x / ulp\<rfloor>" by (simp add: le_floor_iff)
  with round_half_even_ge_floor [of "x / ulp"] have "0 < round_half_even (x / ulp)" by linarith
  then have "0 < rat_of_int (round_half_even (x / ulp)) * ulp"
    using ulp by simp
  moreover have "round_double x = rat_of_int (round_half_even (x / ulp)) * ulp"
    using assms by (simp add: round_double_def ulp_def e_def Let_def)
  ultimately show ?thesis by simp
qed

lemma py_float_pos: "0 < n \<Longrightarrow> 0 < py_float n"
  by (simp add: py_float_def round_double_pos)

lemma str_nat_not_Nil: "str_nat n \<noteq> []"
  by (subst str_nat.simps) simp

lemma digit_char_zero_iff: "n < 10 \<Longrightarrow> digit_char n = CHR ''0'' \<longleftrightarrow> n = 0"
proof -
  assume "n < 10"
  then consider "n = 0" | "n = 1" | "n = 2" | "n = 3" | "n = 4" | "n = 5" | "n = 6" | "n = 7"
    | "n = 8" | "n = 9"
    by atomize_elim arith
  then show ?thesis
    by cases (simp_all add: digit_char_def)
qed

lemma str_nat_zero_iff: "str_nat n = ''0'' \<longleftrightarrow> n = 0"
proof (cases "n < 10")
  case True
  then show ?thesis
    using digit_char_zero_iff [OF True] by (subst str_nat.simps) simp
next
  case False
  then have "str_nat n = str_nat (n div 10) @ [digit_char (n mod 10)]"
    by (subst str_nat.simps) simp
  then have "length (str_nat n) \<ge> 2"
    using str_nat_not_Nil [of "n div 10"] by (cases "str_nat (n div 10)") simp_all
  with False show ?thesis by auto
qed

lemma str_int_zero_iff: "str_int i = ''0'' \<longleftrightarrow> i = 0"
  by (auto simp: str_int_def str_nat_zero_iff)

lemma str_int_0: "str_int 0 = ''0''"
  by (simp add: str_int_zero_iff)

lemma format_0f_zero_iff: "format_0f x = ''0'' \<longleftrightarrow> round_half_even x = 0"
  by (simp add: format_0f_def str_int_zero_iff)

section \<open>The three actions\<close>

lemma Image_Object_open_filename:
  "Image_Object_open lib image_obj w = Inr image_obj1 \<Longrightarrow> filename image_obj1 = filename image_obj"
  by (auto simp: Image_Object_open_def split: sum.splits)

lemma ensure_open_filename:
  "(if \<not> is_open image_obj then Image_Object_open lib image_obj w else Inr image_obj) = Inr image_obj1
   \<Longrightarrow> filename image_obj1 = filename image_obj"
  by (auto simp: Image_Object_open_filename split: if_splits)

lemma Image_Object_save_filename:
  "Image_Object_save lib self name optimize w = (r, self', w') \<Longrightarrow> filename self' = filename self"
  by (auto simp: Image_Object_save_def update_is_editable_def Let_def
           split: sum.splits option.splits if_splits prod.splits)

lemma example_open:
  "(if \<not> is_open (example_object p) then Image_Object_open (example_library im n) (example_object p)
                                           (example_world p k)
    else Inr (example_object p)) =
   Inr ((example_object p)\<lparr>image_pil := Some im, is_open := True\<rparr>)"
  by (simp add: example_object_def example_library_def example_world_def Image_Object_open_def
        Image_open_def)

lemma example_stat:
  "os_stat (example_world p k) p = Inr \<lparr>st_size = k, st_mode_write = True\<rparr>"
  by (simp add: example_world_def os_stat_def)

subsection \<open>Compress: files that are not PNG\<close>

text \<open>
  Claim C4. For a file whose name does not end in \<^verbatim>\<open>.png\<close> (compared in lower case),
  \<^verbatim>\<open>Action_Compress_PNG.execute\<close> returns \<^verbatim>\<open>(False, "<basename> is not a PNG file")\<close>;
  the image object comes back as it was (so it has not been opened) and the world comes
  back as it was (so no byte of any file has changed).
\<close>

theorem compress_non_png:
  assumes "\<not> endswith (lower (filename image_obj)) ''.png''"
  shows "Action_Compress_PNG_execute lib image_obj w =
           (Inr (False, os_path_basename (filename image_obj) @ '' is not a PNG file''), image_obj, w)"
  using assms by (simp add: Action_Compress_PNG_execute_def)

theorem compress_non_png_witness:
  "\<not> endswith (lower (filename (example_object ''textures/rock.TGA''))) ''.png'' \<and>
   Action_Compress_PNG_execute (example_library (example_image ''RGB'' 4 4 []) 10)
       (example_object ''textures/rock.TGA'') (example_world ''textures/rock.TGA'' 20) =
     (Inr (False, ''rock.TGA is not a PNG file''),
      example_object ''textures/rock.TGA'', example_world ''textures/rock.TGA'' 20)"
proof -
  have h: "\<not> endswith (lower (filename (example_object ''textures/rock.TGA''))) ''.png''"
    by code_simp
  have b: "os_path_basename (filename (example_object ''textures/rock.TGA'')) = ''rock.TGA''"
    by code_simp
  show ?thesis
    using h compress_non_png [OF h] b by simp
qed

subsection \<open>Compress: PNG files\<close>

text \<open>
  What \<^verbatim>\<open>execute\<close> returns for a PNG file when it returns at all, in terms of the
  size of the file before and after the call.
\<close>

lemma compress_png_result:
  assumes png: "endswith (lower (filename image_obj)) ''.png''"
    and run: "Action_Compress_PNG_execute lib image_obj w = (Inr r, image_obj', w')"
    and before: "os_stat w (filename image_obj) = Inr st0"
    and after: "os_stat w' (filename image_obj) = Inr st1"
    and diff: "file_size_diff = int (st_size st0) - int (st_size st1)"
    and kb_raw: "kb_raw = str_int (py_int (py_float_mul (round_double (py_float file_size_diff / 1024))
                                                        (py_float 100)))"
  shows "r = (if 0 < file_size_diff then
                (True, ''Compression saved '' @ take (length kb_raw - 2) kb_raw @ ''.'' @
                       drop (length kb_raw - 2) kb_raw @ '' kbs on disk'')
              else if file_size_diff = 0 then
                (False, ''Compression did not save any memory on disk'')
              else (False, ''Failed to complete the action for unknown reasons''))"
proof -
  obtain image_obj1 where
    o: "(if \<not> is_open image_obj then Image_Object_open lib image_obj w else Inr image_obj) = Inr image_obj1"
    using run png before
    by (cases "if \<not> is_open image_obj then Image_Object_open lib image_obj w else Inr image_obj")
       (simp_all add: Action_Compress_PNG_execute_def Let_def)
  have f1: "filename image_obj1 = filename image_obj"
    by (rule ensure_open_filename [OF o])
  obtain s image_obj2 w2 where
    sv: "Image_Object_save lib image_obj1 None True w = (s, image_obj2, w2)"
    by (cases "Image_Object_save lib image_obj1 None True w")
  have f2: "filename image_obj2 = filename image_obj"
    using Image_Object_save_filename [OF sv] f1 by simp
  from run png before o sv obtain u where s: "s = Inr u"
    by (cases s) (simp_all add: Action_Compress_PNG_execute_def Let_def)
  from run png before o sv s f2 have w': "w' = w2"
    by (auto simp: Action_Compress_PNG_execute_def Let_def py_float_div_def split: sum.splits if_splits)
  from run png before o sv s f2 after w' diff kb_raw show ?thesis
    by (auto simp: Action_Compress_PNG_execute_def Let_def py_float_div_def split: sum.splits if_splits)
qed

lemma compress_shrinks_eval:
  "Action_Compress_PNG_execute (example_library (example_image ''RGB'' 4 4 []) 1000)
      (example_object ''a.png'') (example_world ''a.png'' 1050) =
   (Inr (True, ''Compression saved .4 kbs on disk''),
    (example_object ''a.png'')
      \<lparr>image_pil := Some (example_image ''RGB'' 4 4 []), is_editable := True, is_open := True\<rparr>,
    (example_world ''a.png'' 1050)
      \<lparr>files := [''a.png'' \<mapsto> \<lparr>content = replicate 1000 0, writable = True\<rparr>]\<rparr>)"
proof -
  have kb: "str_int (py_int (py_float_mul (round_double (py_float 50 / 1024)) (py_float 100))) = ''4''"
    by code_simp
  show ?thesis
    by (simp add: Action_Compress_PNG_execute_def example_library_def example_object_def
          example_world_def lower_def lower_char_def endswith_def os_stat_def Image_Object_open_def
          Image_open_def Image_Object_save_def update_is_editable_def Image_save_def write_file_def
          Let_def py_float_div_def kb)
qed

lemma compress_grows_eval:
  "Action_Compress_PNG_execute (example_library (example_image ''RGB'' 4 4 []) 30)
      (example_object ''a.png'') (example_world ''a.png'' 20) =
   (Inr (False, ''Failed to complete the action for unknown reasons''),
    (example_object ''a.png'')
      \<lparr>image_pil := Some (example_image ''RGB'' 4 4 []), is_editable := True, is_open := True\<rparr>,
    (example_world ''a.png'' 20)
      \<lparr>files := [''a.png'' \<mapsto> \<lparr>content = replicate 30 0, writable = True\<rparr>]\<rparr>)"
  by (simp add: Action_Compress_PNG_execute_def example_library_def example_object_def
        example_world_def lower_def lower_char_def endswith_def os_stat_def Image_Object_open_def
        Image_open_def Image_Object_save_def update_is_editable_def Image_save_def write_file_def Let_def)

text \<open>
  Claim C5, evaluated where it fails. A PNG file of 1050 bytes that is saved again with
  1000 bytes: the difference is 50 bytes, \<open>50 / 1024\<close> kilobytes truncated to two decimals
  is \<open>0.04\<close> (4 hundredths), and the message reads \<^verbatim>\<open>.4\<close>. The integer 4 has one
  digit, and the two slices \<^verbatim>\<open>kb_raw[0:-2]\<close> and \<^verbatim>\<open>kb_raw[-2:]\<close> put the decimal
  point in front of it without padding it to two digits.
\<close>

theorem compress_small_saving:
  "fst (Action_Compress_PNG_execute (example_library (example_image ''RGB'' 4 4 []) 1000)
          (example_object ''a.png'') (example_world ''a.png'' 1050)) =
     Inr (True, ''Compression saved .4 kbs on disk'') \<and>
   \<lfloor>(1050 - 1000) / 1024 * (100 :: rat)\<rfloor> = 4"
proof -
  have "\<lfloor>(1050 - 1000) / 1024 * (100 :: rat)\<rfloor> = 4"
    by code_simp
  then show ?thesis
    by (simp only: compress_shrinks_eval fst_conv simp_thms)
qed

text \<open>
  Claim C6 as stated does not hold: when the file is larger after saving, the message is
  not the one of the equal case.
\<close>

theorem compress_larger_counterexample:
  "os_stat (example_world ''a.png'' 20) ''a.png'' = Inr \<lparr>st_size = 20, st_mode_write = True\<rparr> \<and>
   os_stat (snd (snd (Action_Compress_PNG_execute (example_library (example_image ''RGB'' 4 4 []) 30)
                        (example_object ''a.png'') (example_world ''a.png'' 20)))) ''a.png'' =
     Inr \<lparr>st_size = 30, st_mode_write = True\<rparr> \<and>
   fst (Action_Compress_PNG_execute (example_library (example_image ''RGB'' 4 4 []) 30)
          (example_object ''a.png'') (example_world ''a.png'' 20)) \<noteq>
     Inr (False, ''Compression did not save any memory on disk'')"
proof -
  have "os_stat ((example_world ''a.png'' 20)
                   \<lparr>files := [''a.png'' \<mapsto> \<lparr>content = replicate 30 0, writable = True\<rparr>]\<rparr>) ''a.png'' =
          Inr \<lparr>st_size = 30, st_mode_write = True\<rparr>"
    by (simp add: os_stat_def)
  then show ?thesis
    by (simp add: compress_grows_eval example_stat)
qed

text \<open>
  Claim C6, amended. For a PNG file whose size after saving is greater than or equal to
  its size before, \<^verbatim>\<open>execute\<close> returns failure; the message is
  \<^verbatim>\<open>Compression did not save any memory on disk\<close> when the sizes are equal and
  \<^verbatim>\<open>Failed to complete the action for unknown reasons\<close> when the file has grown.
\<close>

theorem compress_not_smaller:
  assumes png: "endswith (lower (filename image_obj)) ''.png''"
    and run: "Action_Compress_PNG_execute lib image_obj w = (Inr r, image_obj', w')"
    and before: "os_stat w (filename image_obj) = Inr st0"
    and after: "os_stat w' (filename image_obj) = Inr st1"
    and ge: "st_size st0 \<le> st_size st1"
  shows "r = (False, if st_size st1 = st_size st0
                     then ''Compression did not save any memory on disk''
                     else ''Failed to complete the action for unknown reasons'')"
  using compress_png_result [OF png run before after refl refl] ge by auto

theorem compress_not_smaller_witness:
  "endswith (lower (filename (example_object ''a.png''))) ''.png'' \<and>
   Action_Compress_PNG_execute (example_library (example_image ''RGB'' 4 4 []) 30)
      (example_object ''a.png'') (example_world ''a.png'' 20) =
   (Inr (False, ''Failed to complete the action for unknown reasons''),
    (example_object ''a.png'')
      \<lparr>image_pil := Some (example_image ''RGB'' 4 4 []), is_editable := True, is_open := True\<rparr>,
    (example_world ''a.png'' 20)
      \<lparr>files := [''a.png'' \<mapsto> \<lparr>content = replicate 30 0, writable = True\<rparr>]\<rparr>) \<and>
   os_stat (example_world ''a.png'' 20) (filename (example_object ''a.png'')) =
     Inr \<lparr>st_size = 20, st_mode_write = True\<rparr> \<and>
   os_stat ((example_world ''a.png'' 20)
              \<lparr>files := [''a.png'' \<mapsto> \<lparr>content = replicate 30 0, writable = True\<rparr>]\<rparr>)
           (filename (example_object ''a.png'')) =
     Inr \<lparr>st_size = 30, st_mode_write = True\<rparr> \<and>
   st_size \<lparr>st_size = 20, st_mode_write = True\<rparr> \<le> st_size \<lparr>st_size = 30, st_mode_write = True\<rparr> \<and>
   (False, ''Failed to complete the action for unknown reasons'') =
     (False, if st_size \<lparr>st_size = 30, st_mode_write = True\<rparr> = st_size \<lparr>st_size = 20, st_mode_write = True\<rparr>
             then ''Compression did not save any memory on disk''
             else ''Failed to complete the action for unknown reasons'')"
proof -
  have png: "endswith (lower (filename (example_object ''a.png''))) ''.png''"
    by code_simp
  have before: "os_stat (example_world ''a.png'' 20) (filename (example_object ''a.png'')) =
                  Inr \<lparr>st_size = 20, st_mode_write = True\<rparr>"
    by (simp add: example_object_def example_stat)
  have after: "os_stat ((example_world ''a.png'' 20)
                          \<lparr>files := [''a.png'' \<mapsto> \<lparr>content = replicate 30 0, writable = True\<rparr>]\<rparr>)
                       (filename (example_object ''a.png'')) =
                 Inr \<lparr>st_size = 30, st_mode_write = True\<rparr>"
    by (simp add: example_object_def os_stat_def)
  have ge: "st_size \<lparr>st_size = 20, st_mode_write = True\<rparr> \<le> st_size \<lparr>st_size = 30, st_mode_write = True\<rparr>"
    by simp
  from compress_not_smaller [OF png compress_grows_eval before after ge]
  show ?thesis
    using png compress_grows_eval before after ge by blast
qed

subsection \<open>Power of two\<close>

lemma check_power_of_2_result:
  assumes opened: "(if \<not> is_open image_obj then Image_Object_open lib image_obj w else Inr image_obj)
                     = Inr image_obj1"
    and im: "image_pil image_obj1 = Some im"
    and sz: "img_size im = (wd, ht)"
  shows "Action_Check_Power_Of_2_execute lib image_obj w =
           (Inr (if (wd \<noteq> 0 \<and> wd AND (wd - 1) = 0) \<and> (ht \<noteq> 0 \<and> ht AND (ht - 1) = 0)
                 then (True, ''Width:'' @ str_int wd @ '' and Height:'' @ str_int ht @
                             '' are both a proper power of 2'')
                 else (False, ''Either Width:'' @ str_int wd @ '' or Height:'' @ str_int ht @
                              '' is NOT a proper power of 2'')),
            image_obj1, w)"
  using assms by (simp add: Action_Check_Power_Of_2_execute_def)

text \<open>
  Claim C7 as stated does not hold: the failure message does not say which dimension
  failed. A \<open>300 \<times> 128\<close> image (the width fails) and a \<open>128 \<times> 300\<close> image (the
  height fails) get the same sentence, \<^verbatim>\<open>Either Width:... or Height:... is NOT a proper
  power of 2\<close>; with the digits taken out the two messages are equal.
\<close>

theorem check_power_of_2_message_counterexample:
  "fst (Action_Check_Power_Of_2_execute (example_library (example_image ''RGB'' 300 128 []) 10)
          (example_object ''a.png'') (example_world ''a.png'' 20)) =
     Inr (False, ''Either Width:300 or Height:128 is NOT a proper power of 2'') \<and>
   fst (Action_Check_Power_Of_2_execute (example_library (example_image ''RGB'' 128 300 []) 10)
          (example_object ''a.png'') (example_world ''a.png'' 20)) =
     Inr (False, ''Either Width:128 or Height:300 is NOT a proper power of 2'') \<and>
   filter (\<lambda>c. c \<notin> set ''0123456789'') ''Either Width:300 or Height:128 is NOT a proper power of 2'' =
   filter (\<lambda>c. c \<notin> set ''0123456789'') ''Either Width:128 or Height:300 is NOT a proper power of 2''"
proof -
  have s: "str_int 300 = ''300''" "str_int 128 = ''128''"
    by code_simp+
  have a: "((300::int) \<noteq> 0 \<and> (300::int) AND (300 - 1) = 0) = False"
          "((128::int) \<noteq> 0 \<and> (128::int) AND (128 - 1) = 0) = True"
    by simp_all
  have sz: "img_size (example_image ''RGB'' 300 128 []) = (300, 128)"
           "img_size (example_image ''RGB'' 128 300 []) = (128, 300)"
    by (simp_all add: example_image_def)
  have im: "\<And>im. image_pil ((example_object ''a.png'')\<lparr>image_pil := Some im, is_open := True\<rparr>) = Some im"
    by simp
  show ?thesis
    using check_power_of_2_result
            [OF example_open [of "''a.png''" "example_image ''RGB'' 300 128 []" 10 20] im sz(1)]
          check_power_of_2_result
            [OF example_open [of "''a.png''" "example_image ''RGB'' 128 300 []" 10 20] im sz(2)]
    by (simp only: a s fst_conv simp_thms if_False if_True) simp
qed

text \<open>
  Claim C7, amended. \<^verbatim>\<open>Action_Check_Power_Of_2.execute\<close> returns success exactly when
  both the width and the height pass the test \<open>n \<noteq> 0 \<and> n AND (n - 1) = 0\<close>. The
  success message and the failure message both report the two dimensions; the failure
  message is the same sentence whichever dimension failed.
\<close>

theorem check_power_of_2:
  assumes opened: "(if \<not> is_open image_obj then Image_Object_open lib image_obj w else Inr image_obj)
                     = Inr image_obj1"
    and im: "image_pil image_obj1 = Some im"
    and sz: "img_size im = (wd, ht)"
  shows "Action_Check_Power_Of_2_execute lib image_obj w =
           (Inr (if (wd \<noteq> 0 \<and> wd AND (wd - 1) = 0) \<and> (ht \<noteq> 0 \<and> ht AND (ht - 1) = 0)
                 then (True, ''Width:'' @ str_int wd @ '' and Height:'' @ str_int ht @
                             '' are both a proper power of 2'')
                 else (False, ''Either Width:'' @ str_int wd @ '' or Height:'' @ str_int ht @
                              '' is NOT a proper power of 2'')),
            image_obj1, w)"
  using assms by (rule check_power_of_2_result)

theorem check_power_of_2_witness:
  "(if \<not> is_open (example_object ''a.png'')
    then Image_Object_open (example_library (example_image ''RGB'' 256 128 []) 10)
           (example_object ''a.png'') (example_world ''a.png'' 20)
    else Inr (example_object ''a.png'')) =
     Inr ((example_object ''a.png'')\<lparr>image_pil := Some (example_image ''RGB'' 256 128 []), is_open := True\<rparr>) \<and>
   image_pil ((example_object ''a.png'')\<lparr>image_pil := Some (example_image ''RGB'' 256 128 []), is_open := True\<rparr>) =
     Some (example_image ''RGB'' 256 128 []) \<and>
   img_size (example_image ''RGB'' 256 128 []) = (256, 128) \<and>
   Action_Check_Power_Of_2_execute (example_library (example_image ''RGB'' 256 128 []) 10)
      (example_object ''a.png'') (example_world ''a.png'' 20) =
     (Inr (True, ''Width:256 and Height:128 are both a proper power of 2''),
      (example_object ''a.png'')\<lparr>image_pil := Some (example_image ''RGB'' 256 128 []), is_open := True\<rparr>,
      example_world ''a.png'' 20)"
proof -
  have s: "str_int 256 = ''256''" "str_int 128 = ''128''"
    by code_simp+
  have a: "((256::int) \<noteq> 0 \<and> (256::int) AND (256 - 1) = 0) = True"
          "((128::int) \<noteq> 0 \<and> (128::int) AND (128 - 1) = 0) = True"
    by simp_all
  have sz: "img_size (example_image ''RGB'' 256 128 []) = (256, 128)"
    by (simp add: example_image_def)
  have im: "image_pil ((example_object ''a.png'')\<lparr>image_pil := Some (example_image ''RGB'' 256 128 []), is_open := True\<rparr>) =
              Some (example_image ''RGB'' 256 128 [])"
    by simp
  from check_power_of_2
         [OF example_open [of "''a.png''" "example_image ''RGB'' 256 128 []" 10 20] im sz]
  have "Action_Check_Power_Of_2_execute (example_library (example_image ''RGB'' 256 128 []) 10)
          (example_object ''a.png'') (example_world ''a.png'' 20) =
        (Inr (True, ''Width:256 and Height:128 are both a proper power of 2''),
         (example_object ''a.png'')\<lparr>image_pil := Some (example_image ''RGB'' 256 128 []), is_open := True\<rparr>,
         example_world ''a.png'' 20)"
    by (simp only: a s simp_thms if_True) simp
  with example_open [of "''a.png''" "example_image ''RGB'' 256 128 []" 10 20] im sz
  show ?thesis by blast
qed

subsection \<open>PBR values\<close>

lemma split_red_example:
  "split_red (example_image ''RGB'' wd ht red) = Inr (Some red)"
  "split_red (example_image ''RGBA'' wd ht red) = Inr (Some red)"
  "split_red (example_image ''L'' wd ht red) = Inr None"
  by (simp_all add: split_red_def example_image_def)

text \<open>
  What \<^verbatim>\<open>Action_Verify_PBR_Values.execute\<close> returns for a file named
  \<^verbatim>\<open>..._mra.png\<close> whose image has a red channel.
\<close>

lemma verify_pbr_result:
  assumes name: "endswith (lower (filename image_obj)) ''_mra.png''"
    and opened: "(if \<not> is_open image_obj then Image_Object_open lib image_obj w else Inr image_obj)
                   = Inr image_obj1"
    and im: "image_pil image_obj1 = Some im"
    and red: "split_red im = Inr (Some red)"
    and bad: "bad = int (length (filter (\<lambda>pixel. 0 < pixel \<and> pixel < 255) red))"
    and total: "total_count = int (length red)"
    and pct: "pct = round_half_even (py_float_mul (round_double (py_float bad / py_float total_count)) 100)"
  shows "Action_Verify_PBR_Values_execute lib image_obj w =
           (Inr (if bad = 0 then (True, ''Passed all PBR validation tests'')
                 else (False, (if pct = 0 then ''Less than 0'' else str_int pct) @
                         ''% of the pixels in the red channel are not valid METAL values'')),
            image_obj1, w)"
proof (cases "bad = 0")
  case True
  then show ?thesis
    using name opened im red bad ensure_open_filename [OF opened]
    by (simp add: Action_Verify_PBR_Values_execute_def)
next
  case False
  then have "0 < length red" using bad by (cases red) auto
  then have nz: "py_float (int (length red)) \<noteq> 0"
    using py_float_pos [of "int (length red)"] by simp
  define ratio where "ratio = round_double (py_float bad / py_float total_count)"
  have div: "py_float_div (py_float bad) (py_float total_count) = Inr ratio"
    using nz total by (simp add: py_float_div_def ratio_def)
  from pct have p: "pct = round_half_even (py_float_mul ratio 100)"
    by (simp add: ratio_def)
  have pos: "0 < length (filter (\<lambda>pixel. 0 < pixel \<and> pixel < 255) red)"
    using False bad by simp
  show ?thesis
    using False name opened im red ensure_open_filename [OF opened] div pos
    by (simp add: Action_Verify_PBR_Values_execute_def Let_def bad [symmetric] total [symmetric]
          p format_0f_def str_int_zero_iff str_int_0)
qed

text \<open>
  Claim C8 as stated does not hold: the percentage is rounded to the nearest integer by
  \<^verbatim>\<open>"{0:.0f}".format\<close>, not floored. With 2 bad pixels out of 3 the message says 67
  where the floor is 66; with 3 bad pixels out of 400 the floor is 0 but the message
  says 1 and has no \<^verbatim>\<open>Less than\<close> in front.
\<close>

theorem verify_pbr_floor_counterexample:
  "fst (Action_Verify_PBR_Values_execute (example_library (example_image ''RGB'' 3 1 [128, 0, 7]) 10)
          (example_object ''rock_mra.png'') (example_world ''rock_mra.png'' 20)) =
     Inr (False, ''67% of the pixels in the red channel are not valid METAL values'') \<and>
   \<lfloor>2 / 3 * (100 :: rat)\<rfloor> = 66 \<and>
   fst (Action_Verify_PBR_Values_execute
          (example_library (example_image ''RGB'' 20 20 (replicate 397 0 @ [1, 128, 254])) 10)
          (example_object ''rock_mra.png'') (example_world ''rock_mra.png'' 20)) =
     Inr (False, ''1% of the pixels in the red channel are not valid METAL values'') \<and>
   \<lfloor>3 / 400 * (100 :: rat)\<rfloor> = 0"
proof -
  have name: "endswith (lower (filename (example_object ''rock_mra.png''))) ''_mra.png''"
    by code_simp
  have im: "\<And>im. image_pil ((example_object ''rock_mra.png'')\<lparr>image_pil := Some im, is_open := True\<rparr>) = Some im"
    by simp
  have bad1: "2 = int (length (filter (\<lambda>pixel. 0 < pixel \<and> pixel < 255) [128, 0, 7 :: nat]))"
    by simp
  have total1: "3 = int (length [128, 0, 7 :: nat])"
    by simp
  have pct1: "67 = round_half_even (py_float_mul (round_double (py_float 2 / py_float 3)) 100)"
    by code_simp
  have bad2: "3 = int (length (filter (\<lambda>pixel. 0 < pixel \<and> pixel < 255) (replicate 397 0 @ [1, 128, 254 :: nat])))"
    by simp
  have total2: "400 = int (length (replicate 397 0 @ [1, 128, 254 :: nat]))"
    by simp
  have pct2: "1 = round_half_even (py_float_mul (round_double (py_float 3 / py_float 400)) 100)"
    by code_simp
  have s: "str_int 67 = ''67''" "str_int 1 = ''1''"
    by code_simp+
  have f: "\<lfloor>2 / 3 * (100 :: rat)\<rfloor> = 66" "\<lfloor>3 / 400 * (100 :: rat)\<rfloor> = 0"
    by code_simp+
  from verify_pbr_result
         [OF name example_open [of "''rock_mra.png''" "example_image ''RGB'' 3 1 [128, 0, 7]" 10 20]
             im split_red_example(1) bad1 total1 pct1]
  have r1: "fst (Action_Verify_PBR_Values_execute (example_library (example_image ''RGB'' 3 1 [128, 0, 7]) 10)
                   (example_object ''rock_mra.png'') (example_world ''rock_mra.png'' 20)) =
              Inr (False, ''67% of the pixels in the red channel are not valid METAL values'')"
    by (simp add: s)
  from verify_pbr_result
         [OF name example_open [of "''rock_mra.png''"
                                   "example_image ''RGB'' 20 20 (replicate 397 0 @ [1, 128, 254])" 10 20]
             im split_red_example(1) bad2 total2 pct2]
  have r2: "fst (Action_Verify_PBR_Values_execute
                   (example_library (example_image ''RGB'' 20 20 (replicate 397 0 @ [1, 128, 254])) 10)
                   (example_object ''rock_mra.png'') (example_world ''rock_mra.png'' 20)) =
              Inr (False, ''1% of the pixels in the red channel are not valid METAL values'')"
    by (simp add: s)
  from r1 r2 f show ?thesis by blast
qed

text \<open>
  The example of the specification: 1 bad pixel out of 10000 gives \<^verbatim>\<open>Less than 0% ...\<close>.
\<close>

lemma verify_pbr_one_in_ten_thousand:
  "fst (Action_Verify_PBR_Values_execute
          (example_library (example_image ''RGB'' 100 100 (replicate 9999 0 @ [128])) 10)
          (example_object ''rock_mra.png'') (example_world ''rock_mra.png'' 20)) =
     Inr (False, ''Less than 0% of the pixels in the red channel are not valid METAL values'')"
proof -
  have name: "endswith (lower (filename (example_object ''rock_mra.png''))) ''_mra.png''"
    by code_simp
  have im: "\<And>im. image_pil ((example_object ''rock_mra.png'')\<lparr>image_pil := Some im, is_open := True\<rparr>) = Some im"
    by simp
  have bad: "1 = int (length (filter (\<lambda>pixel. 0 < pixel \<and> pixel < 255) (replicate 9999 0 @ [128 :: nat])))"
    by simp
  have total: "10000 = int (length (replicate 9999 0 @ [128 :: nat]))"
    by simp
  have pct: "0 = round_half_even (py_float_mul (round_double (py_float 1 / py_float 10000)) 100)"
    by code_simp
  from verify_pbr_result
         [OF name example_open [of "''rock_mra.png''"
                                   "example_image ''RGB'' 100 100 (replicate 9999 0 @ [128])" 10 20]
             im split_red_example(1) bad total pct]
  show ?thesis by simp
qed

text \<open>
  Claim C8, amended. For a file whose name ends in \<^verbatim>\<open>_mra.png\<close> (compared in lower
  case) and whose image has a red channel (mode \<^verbatim>\<open>RGB\<close> or \<^verbatim>\<open>RGBA\<close>): with no red
  pixel strictly between 0 and 255 the action passes; with \<open>bad > 0\<close> such pixels it
  fails, and the figure in the message is the double
  \<^verbatim>\<open>float(bad) / float(total) * 100.0\<close> rounded to the nearest integer, ties to even,
  with \<^verbatim>\<open>Less than\<close> in front exactly when that rounded value is 0.
\<close>

theorem verify_pbr_metal_percentage:
  assumes name: "endswith (lower (filename image_obj)) ''_mra.png''"
    and opened: "(if \<not> is_open image_obj then Image_Object_open lib image_obj w else Inr image_obj)
                   = Inr image_obj1"
    and im: "image_pil image_obj1 = Some im"
    and red: "split_red im = Inr (Some red)"
    and bad: "bad = int (length (filter (\<lambda>pixel. 0 < pixel \<and> pixel < 255) red))"
    and total: "total_count = int (length red)"
    and pct: "pct = round_half_even (py_float_mul (round_double (py_float bad / py_float total_count)) 100)"
  shows "Action_Verify_PBR_Values_execute lib image_obj w =
           (Inr (if bad = 0 then (True, ''Passed all PBR validation tests'')
                 else (False, (if pct = 0 then ''Less than 0'' else str_int pct) @
                         ''% of the pixels in the red channel are not valid METAL values'')),
            image_obj1, w)"
  using assms by (rule verify_pbr_result)

theorem verify_pbr_metal_percentage_witness:
  "endswith (lower (filename (example_object ''rock_mra.png''))) ''_mra.png'' \<and>
   (if \<not> is_open (example_object ''rock_mra.png'')
    then Image_Object_open (example_library (example_image ''RGBA'' 2 2 [0, 255, 128, 0]) 10)
           (example_object ''rock_mra.png'') (example_world ''rock_mra.png'' 20)
    else Inr (example_object ''rock_mra.png'')) =
     Inr ((example_object ''rock_mra.png'')
            \<lparr>image_pil := Some (example_image ''RGBA'' 2 2 [0, 255, 128, 0]), is_open := True\<rparr>) \<and>
   image_pil ((example_object ''rock_mra.png'')
                \<lparr>image_pil := Some (example_image ''RGBA'' 2 2 [0, 255, 128, 0]), is_open := True\<rparr>) =
     Some (example_image ''RGBA'' 2 2 [0, 255, 128, 0]) \<and>
   split_red (example_image ''RGBA'' 2 2 [0, 255, 128, 0]) = Inr (Some [0, 255, 128, 0]) \<and>
   1 = int (length (filter (\<lambda>pixel. 0 < pixel \<and> pixel < 255) [0, 255, 128, 0 :: nat])) \<and>
   4 = int (length [0, 255, 128, 0 :: nat]) \<and>
   25 = round_half_even (py_float_mul (round_double (py_float 1 / py_float 4)) 100) \<and>
   Action_Verify_PBR_Values_execute (example_library (example_image ''RGBA'' 2 2 [0, 255, 128, 0]) 10)
      (example_object ''rock_mra.png'') (example_world ''rock_mra.png'' 20) =
     (Inr (False, ''25% of the pixels in the red channel are not valid METAL values''),
      (example_object ''rock_mra.png'')
        \<lparr>image_pil := Some (example_image ''RGBA'' 2 2 [0, 255, 128, 0]), is_open := True\<rparr>,
      example_world ''rock_mra.png'' 20)"
proof -
  have name: "endswith (lower (filename (example_object ''rock_mra.png''))) ''_mra.png''"
    by code_simp
  have im: "image_pil ((example_object ''rock_mra.png'')
                \<lparr>image_pil := Some (example_image ''RGBA'' 2 2 [0, 255, 128, 0]), is_open := True\<rparr>) =
              Some (example_image ''RGBA'' 2 2 [0, 255, 128, 0])"
    by simp
  have bad: "1 = int (length (filter (\<lambda>pixel. 0 < pixel \<and> pixel < 255) [0, 255, 128, 0 :: nat]))"
    by simp
  have total: "4 = int (length [0, 255, 128, 0 :: nat])"
    by simp
  have pct: "25 = round_half_even (py_float_mul (round_double (py_float 1 / py_float 4)) 100)"
    by code_simp
  have s: "str_int 25 = ''25''"
    by code_simp
  from verify_pbr_metal_percentage
         [OF name example_open [of "''rock_mra.png''" "example_image ''RGBA'' 2 2 [0, 255, 128, 0]" 10 20]
             im split_red_example(2) bad total pct]
  have "Action_Verify_PBR_Values_execute (example_library (example_image ''RGBA'' 2 2 [0, 255, 128, 0]) 10)
          (example_object ''rock_mra.png'') (example_world ''rock_mra.png'' 20) =
        (Inr (False, ''25% of the pixels in the red channel are not valid METAL values''),
         (example_object ''rock_mra.png'')
           \<lparr>image_pil := Some (example_image ''RGBA'' 2 2 [0, 255, 128, 0]), is_open := True\<rparr>,
         example_world ''rock_mra.png'' 20)"
    by (simp add: s)
  with name example_open [of "''rock_mra.png''" "example_image ''RGBA'' 2 2 [0, 255, 128, 0]" 10 20]
       im split_red_example(2) [of 2 2 "[0, 255, 128, 0]"] bad total pct
  show ?thesis by blast
qed

section \<open>Choosing the actions\<close>

lemma Action_Compress_PNG_attrs:
  "class_name (Action_Compress_PNG lib) = ''Action_Compress_PNG''"
  "action_name (Action_Compress_PNG lib) = ''compress_png''"
  "status_msg (Action_Compress_PNG lib) = ''Compressing ''"
  "can_execute (Action_Compress_PNG lib) = True"
  "execute (Action_Compress_PNG lib) = Action_Compress_PNG_execute lib"
  by (simp_all add: Action_Compress_PNG_def)

lemma Action_Check_Power_Of_2_attrs:
  "class_name (Action_Check_Power_Of_2 lib) = ''Action_Check_Power_Of_2''"
  "action_name (Action_Check_Power_Of_2 lib) = ''check_power_of_2''"
  "status_msg (Action_Check_Power_Of_2 lib) = ''Checking Power of 2 on''"
  "can_execute (Action_Check_Power_Of_2 lib) = False"
  "execute (Action_Check_Power_Of_2 lib) = Action_Check_Power_Of_2_execute lib"
  by (simp_all add: Action_Check_Power_Of_2_def Base_Image_Action_def)

lemma Action_Verify_PBR_Values_attrs:
  "class_name (Action_Verify_PBR_Values lib) = ''Action_Verify_PBR_Values''"
  "action_name (Action_Verify_PBR_Values lib) = ''verify_pbr_values''"
  "status_msg (Action_Verify_PBR_Values lib) = ''Verifying PBR Values on''"
  "can_execute (Action_Verify_PBR_Values lib) = False"
  "execute (Action_Verify_PBR_Values lib) = Action_Verify_PBR_Values_execute lib"
  by (simp_all add: Action_Verify_PBR_Values_def Base_Image_Action_def)

lemmas builtin_attrs =
  Action_Compress_PNG_attrs Action_Check_Power_Of_2_attrs Action_Verify_PBR_Values_attrs

lemma set_order_set: "\<forall>xs. mset (set_order xs) = mset xs \<Longrightarrow> set (set_order xs) = set xs"
  by (rule mset_eq_setD) simp

lemma set_order_distinct:
  "\<forall>xs. mset (set_order xs) = mset xs \<Longrightarrow> distinct (set_order xs) = distinct xs"
  by (rule mset_eq_imp_distinct_iff) simp

text \<open>
  Claim C3 as stated does not hold for the allow-list that is empty: the test
  \<^verbatim>\<open>if self.actions:\<close> treats it as absent, so the actions enabled by default come
  back (here \<^verbatim>\<open>compress_png\<close>) although no action has its name in the list.
\<close>

theorem select_actions_by_name_counterexample:
  "get_subclass_actions_to_perform id
      (subclasses_of_Base_Image_Action (example_library (example_image ''RGB'' 4 4 []) 10))
      (example_batch [] (Some [])) =
     [Action_Compress_PNG (example_library (example_image ''RGB'' 4 4 []) 10)] \<and>
   {a \<in> set (subclasses_of_Base_Image_Action (example_library (example_image ''RGB'' 4 4 []) 10)).
      action_name a \<in> set []} = {}"
  by (simp add: get_subclass_actions_to_perform_def subclasses_of_Base_Image_Action_def
        example_batch_def builtin_attrs)

text \<open>
  Claim C3, amended. For every allow-list that is neither absent nor empty, the actions
  returned are exactly the registered classes whose \<open>action_name\<close> is in the list,
  whatever their \<open>can_execute\<close> flag; names in the list that no class has are ignored;
  no class is returned twice, so no two returned actions have the same name as long as
  different registered classes have different names. The order of a Python set is any
  order: \<open>set_order\<close> only has to permute its argument.
\<close>

theorem select_actions_by_name:
  assumes ids: "actions self = Some ids" "ids \<noteq> []"
    and order: "\<forall>xs. mset (set_order xs) = mset xs"
  shows "set (get_subclass_actions_to_perform set_order subclasses self) =
           {a \<in> set subclasses. action_name a \<in> set ids} \<and>
         distinct (get_subclass_actions_to_perform set_order subclasses self) \<and>
         (inj_on action_name (set subclasses) \<longrightarrow>
            distinct (map action_name (get_subclass_actions_to_perform set_order subclasses self)))"
proof -
  define chosen where "chosen = [a \<leftarrow> subclasses. action_name a \<in> set ids]"
  have sel: "get_subclass_actions_to_perform set_order subclasses self = set_order (remdups chosen)"
    using ids by (simp add: get_subclass_actions_to_perform_def chosen_def)
  have s: "set (set_order (remdups chosen)) = {a \<in> set subclasses. action_name a \<in> set ids}"
    using set_order_set [OF order, of "remdups chosen"] by (auto simp: chosen_def)
  have d: "distinct (set_order (remdups chosen))"
    using set_order_distinct [OF order, of "remdups chosen"] by simp
  have "distinct (map action_name (set_order (remdups chosen)))"
    if "inj_on action_name (set subclasses)"
  proof -
    from s have "set (set_order (remdups chosen)) \<subseteq> set subclasses" by auto
    with that have "inj_on action_name (set (set_order (remdups chosen)))"
      by (rule inj_on_subset)
    with d show ?thesis by (simp add: distinct_map)
  qed
  with s d sel show ?thesis by simp
qed

theorem select_actions_by_name_witness:
  "actions (example_batch [] (Some [''verify_pbr_values'', ''no_such_action''])) =
     Some [''verify_pbr_values'', ''no_such_action''] \<and>
   [''verify_pbr_values'', ''no_such_action''] \<noteq> [] \<and>
   (\<forall>xs :: action_class list. mset (rev xs) = mset xs) \<and>
   set (get_subclass_actions_to_perform rev
          (subclasses_of_Base_Image_Action (example_library (example_image ''RGB'' 4 4 []) 10))
          (example_batch [] (Some [''verify_pbr_values'', ''no_such_action'']))) =
     {Action_Verify_PBR_Values (example_library (example_image ''RGB'' 4 4 []) 10)} \<and>
   distinct (map action_name (get_subclass_actions_to_perform rev
          (subclasses_of_Base_Image_Action (example_library (example_image ''RGB'' 4 4 []) 10))
          (example_batch [] (Some [''verify_pbr_values'', ''no_such_action'']))))"
proof -
  let ?lib = "example_library (example_image ''RGB'' 4 4 []) 10"
  let ?ids = "[''verify_pbr_values'', ''no_such_action'']"
  have a: "actions (example_batch [] (Some ?ids)) = Some ?ids"
    by (simp add: example_batch_def)
  have n: "?ids \<noteq> []" by simp
  have o: "\<forall>xs :: action_class list. mset (rev xs) = mset xs" by simp
  have inj: "inj_on action_name (set (subclasses_of_Base_Image_Action ?lib))"
    by (auto simp: inj_on_def subclasses_of_Base_Image_Action_def builtin_attrs)
  have s: "{a \<in> set (subclasses_of_Base_Image_Action ?lib). action_name a \<in> set ?ids} =
             {Action_Verify_PBR_Values ?lib}"
    by (auto simp: subclasses_of_Base_Image_Action_def builtin_attrs)
  from select_actions_by_name [OF a n o, of "subclasses_of_Base_Image_Action ?lib"] inj s a o
  show ?thesis by simp
qed

text \<open>
  Two classes that share a name are both returned: \<^verbatim>\<open>list(set(actions))\<close> compares
  class objects, not names.
\<close>

lemma select_actions_same_name:
  "get_subclass_actions_to_perform id
      [Base_Image_Action\<lparr>class_name := ''First''\<rparr>, Base_Image_Action\<lparr>class_name := ''Second''\<rparr>]
      (example_batch [] (Some [''base_image_action''])) =
     [Base_Image_Action\<lparr>class_name := ''First''\<rparr>, Base_Image_Action\<lparr>class_name := ''Second''\<rparr>]"
  by (simp add: get_subclass_actions_to_perform_def example_batch_def Base_Image_Action_def)

lemma run_arguments_empty_actions:
  "arg_actions (run_arguments [''Image_Processor.py'', ''-headless'', ''-actions='']) = Some ['''']"
  by code_simp

text \<open>
  Claim C10 as stated does not hold in two respects. The empty list does give the empty
  result when no registered class is enabled by default. And the argument
  \<^verbatim>\<open>-actions=\<close> does not give the empty list: \<^verbatim>\<open>''.split(',')\<close> is \<^verbatim>\<open>['']\<close>, a
  list that is true and names no action, so no action at all is chosen, not the default
  ones.
\<close>

theorem select_actions_empty_list_counterexample:
  "get_subclass_actions_to_perform id
      [Action_Check_Power_Of_2 (example_library (example_image ''RGB'' 4 4 []) 10),
       Action_Verify_PBR_Values (example_library (example_image ''RGB'' 4 4 []) 10)]
      (example_batch [] (Some [])) = [] \<and>
   arg_actions (run_arguments [''Image_Processor.py'', ''-headless'', ''-actions='']) = Some [''''] \<and>
   get_subclass_actions_to_perform id
      (subclasses_of_Base_Image_Action (example_library (example_image ''RGB'' 4 4 []) 10))
      (example_batch [] (Some [''''])) = []"
  using run_arguments_empty_actions
  by (simp add: get_subclass_actions_to_perform_def subclasses_of_Base_Image_Action_def
        example_batch_def builtin_attrs)

text \<open>
  Claim C10, amended. For a batch whose allow-list is the empty list, the choice of actions
  is the same as with no allow-list, and the actions returned are exactly the registered
  classes whose \<open>can_execute\<close> flag is true.
\<close>

theorem select_actions_empty_list:
  assumes "actions self = Some []"
  shows "get_subclass_actions_to_perform set_order subclasses self =
           get_subclass_actions_to_perform set_order subclasses (self\<lparr>actions := None\<rparr>) \<and>
         ((\<forall>xs. mset (set_order xs) = mset xs) \<longrightarrow>
            set (get_subclass_actions_to_perform set_order subclasses self) =
              {a \<in> set subclasses. can_execute a})"
proof -
  have sel: "get_subclass_actions_to_perform set_order subclasses self =
               set_order (remdups [a \<leftarrow> subclasses. can_execute a])"
    using assms by (simp add: get_subclass_actions_to_perform_def)
  have "set (set_order (remdups [a \<leftarrow> subclasses. can_execute a])) = {a \<in> set subclasses. can_execute a}"
    if "\<forall>xs. mset (set_order xs) = mset xs"
    using set_order_set [OF that, of "remdups [a \<leftarrow> subclasses. can_execute a]"] by auto
  with sel show ?thesis
    by (simp add: get_subclass_actions_to_perform_def)
qed

theorem select_actions_empty_list_witness:
  "actions (example_batch [] (Some [])) = Some [] \<and>
   (\<forall>xs :: action_class list. mset (rev xs) = mset xs) \<and>
   get_subclass_actions_to_perform rev
      (subclasses_of_Base_Image_Action (example_library (example_image ''RGB'' 4 4 []) 10))
      (example_batch [] (Some [])) =
   get_subclass_actions_to_perform rev
      (subclasses_of_Base_Image_Action (example_library (example_image ''RGB'' 4 4 []) 10))
      (example_batch [] None) \<and>
   set (get_subclass_actions_to_perform rev
      (subclasses_of_Base_Image_Action (example_library (example_image ''RGB'' 4 4 []) 10))
      (example_batch [] (Some []))) =
     {Action_Compress_PNG (example_library (example_image ''RGB'' 4 4 []) 10)}"
proof -
  let ?lib = "example_library (example_image ''RGB'' 4 4 []) 10"
  have a: "actions (example_batch [] (Some [])) = Some []"
    by (simp add: example_batch_def)
  have o: "\<forall>xs :: action_class list. mset (rev xs) = mset xs" by simp
  have u: "(example_batch [] (Some []))\<lparr>actions := None\<rparr> = example_batch [] None"
    by (simp add: example_batch_def)
  have s: "{a \<in> set (subclasses_of_Base_Image_Action ?lib). can_execute a} = {Action_Compress_PNG ?lib}"
    by (auto simp: subclasses_of_Base_Image_Action_def builtin_attrs)
  note t = select_actions_empty_list [OF a, of rev "subclasses_of_Base_Image_Action ?lib"]
  from t have t1: "get_subclass_actions_to_perform rev (subclasses_of_Base_Image_Action ?lib)
                     (example_batch [] (Some [])) =
                   get_subclass_actions_to_perform rev (subclasses_of_Base_Image_Action ?lib)
                     (example_batch [] None)"
    by (simp only: u)
  from t o have t2: "set (get_subclass_actions_to_perform rev (subclasses_of_Base_Image_Action ?lib)
                       (example_batch [] (Some []))) =
                     {a \<in> set (subclasses_of_Base_Image_Action ?lib). can_execute a}"
    by blast
  from a o t1 t2 s show ?thesis by (simp only: simp_thms)
qed

section \<open>The batch run\<close>

subsection \<open>The invariant of the report\<close>

lemma results_for_add_file_result:
  "results_for (add_file_result lg name act success results) n =
     (if n = name then results_for lg name @ [(act, success, results)] else results_for lg n)"
  by (simp add: results_for_def add_file_result_def split: option.splits)

lemma fails_for_add_file_result:
  "fails_for (add_file_result lg name act success results) n = fails_for lg n"
  by (simp add: fails_for_def add_file_result_def split: option.splits)

lemma fails_for_add_file_fail:
  "fails_for (add_file_fail lg name act results) n =
     (if n = name then fails_for lg name @ [(act, results)] else fails_for lg n)"
  by (simp add: fails_for_def add_file_fail_def split: option.splits)

lemma results_for_add_file_fail:
  "results_for (add_file_fail lg name act results) n = results_for lg n"
  by (simp add: results_for_def add_file_fail_def split: option.splits)

lemma report_invariant_clear: "report_invariant (clear lg)"
  by (simp add: report_invariant_def clear_def fails_for_def results_for_def)

lemma report_invariant_step:
  assumes "report_invariant lg"
  shows "report_invariant
           (let log1 = add_file_result lg name act success results
            in if \<not> success then add_file_fail log1 name act results else log1)"
  using assms
  by (simp add: report_invariant_def Let_def results_for_add_file_result fails_for_add_file_result
        fails_for_add_file_fail results_for_add_file_fail)

lemma report_invariant_cong:
  "file_results lg' = file_results lg \<Longrightarrow> file_fails lg' = file_fails lg \<Longrightarrow>
   report_invariant lg' = report_invariant lg"
  by (simp add: report_invariant_def results_for_def fails_for_def)

lemma batch_log_update_status_value:
  "batch_log (fst (update_status_value self v w)) = batch_log self"
  by (simp add: update_status_value_def Let_def split: option.splits)

lemma run_actions_invariant:
  "report_invariant (batch_log self) \<Longrightarrow>
   report_invariant (batch_log (fst (snd (run_actions self acts image_obj w))))"
proof (induction acts arbitrary: self image_obj w)
  case Nil
  then show ?case by simp
next
  case (Cons a acts)
  show ?case
  proof (cases "execute a image_obj
                  (update_status_msg self (status_msg a @ '': '' @ os_path_basename (filename image_obj)) w)")
    case (fields r image_obj1 w2)
    show ?thesis
    proof (cases r)
      case (Inl e)
      with fields Cons.prems show ?thesis by simp
    next
      case (Inr res)
      obtain success results where res: "res = (success, results)" by (cases res)
      define lg where "lg = (let log1 = add_file_result (batch_log self) (filename image_obj1)
                                          (action_name a) success results
                             in if \<not> success
                                then add_file_fail log1 (filename image_obj1) (action_name a) results
                                else log1)"
      have "report_invariant lg"
        unfolding lg_def by (rule report_invariant_step [OF Cons.prems])
      then have "report_invariant (batch_log (self\<lparr>batch_log := lg\<rparr>))" by simp
      from Cons.IH [OF this]
      show ?thesis
        using fields Inr res by (simp add: lg_def Let_def)
    qed
  qed
qed

lemma run_files_invariant:
  "report_invariant (batch_log self) \<Longrightarrow>
   report_invariant (batch_log (fst (snd (run_files self acts fs w))))"
proof (induction fs arbitrary: self w)
  case Nil
  then show ?case by simp
next
  case (Cons f fs)
  obtain self1 w1 where u: "update_status_value self None w = (self1, w1)"
    by (cases "update_status_value self None w")
  then have "batch_log self1 = batch_log self"
    using batch_log_update_status_value [of self None w] by simp
  with Cons.prems have inv1: "report_invariant (batch_log self1)" by simp
  show ?case
  proof (cases "Image_Object_init w1 f")
    case (Inl e)
    with u inv1 show ?thesis by simp
  next
    case (Inr image_obj)
    obtain err self2 image_obj1 w2 where
      r: "run_actions self1 acts image_obj w1 = (err, self2, image_obj1, w2)"
      by (cases "run_actions self1 acts image_obj w1")
    from run_actions_invariant [OF inv1, of acts image_obj w1] r
    have inv2: "report_invariant (batch_log self2)" by simp
    show ?thesis
    proof (cases err)
      case None
      with u Inr r Cons.IH [OF inv2] show ?thesis by simp
    next
      case (Some e)
      with u Inr r inv2 show ?thesis by simp
    qed
  qed
qed

lemma run_dirs_invariant:
  "report_invariant (batch_log self) \<Longrightarrow>
   report_invariant (batch_log (fst (snd (run_dirs self acts ds w))))"
proof (induction ds arbitrary: self w)
  case Nil
  then show ?case by simp
next
  case (Cons d ds)
  show ?case
  proof (cases "get_image_files self d w")
    case (Inl e)
    with Cons.prems show ?thesis by simp
  next
    case (Inr fs)
    obtain err self1 w1 where r: "run_files self acts fs w = (err, self1, w1)"
      by (cases "run_files self acts fs w")
    from run_files_invariant [OF Cons.prems, of acts fs w] r
    have inv1: "report_invariant (batch_log self1)" by simp
    show ?thesis
    proof (cases err)
      case None
      with Inr r Cons.IH [OF inv1] show ?thesis by simp
    next
      case (Some e)
      with Inr r inv1 show ?thesis by simp
    qed
  qed
qed

lemma batch_log_update_status_incr:
  "update_status_incr self w = Inr self' \<Longrightarrow> batch_log self' = batch_log self"
  by (auto simp: update_status_incr_def split: sum.splits)

lemma finish_invariant:
  "report_invariant (batch_log self) \<Longrightarrow>
   report_invariant (batch_log (fst (snd (finish lib self w))))"
proof -
  assume inv: "report_invariant (batch_log self)"
  define lg where "lg = (batch_log self)\<lparr>end_time := clock w, completed := True\<rparr>"
  have "report_invariant lg = report_invariant (batch_log self)"
    by (rule report_invariant_cong) (simp_all add: lg_def)
  with inv have inv1: "report_invariant lg" by simp
  show ?thesis
  proof (cases "Log_File_save lib lg w")
    case (Inl e)
    with inv1 show ?thesis by (simp add: finish_def Let_def lg_def)
  next
    case (Inr w1)
    obtain self2 w2 where u: "update_status_value (self\<lparr>batch_log := lg\<rparr>) (Some 100) w1 = (self2, w2)"
      by (cases "update_status_value (self\<lparr>batch_log := lg\<rparr>) (Some 100) w1")
    then have "batch_log self2 = lg"
      using batch_log_update_status_value [of "self\<lparr>batch_log := lg\<rparr>" "Some 100" w1] by simp
    with inv1 Inr u show ?thesis by (simp add: finish_def Let_def lg_def)
  qed
qed

text \<open>
  Claim C9. Whatever the batch, the disk and the registered actions are, and whether the
  run ends normally or is cut short by an exception, the log that \<^verbatim>\<open>start\<close> leaves
  satisfies the invariant: for every file, the entries of \<open>file_fails\<close> are exactly the
  entries of \<open>file_results\<close> with \<open>passed = False\<close>, in the same order. The lemmas
  above show that clearing the log establishes it and that every step of the loops keeps
  it.
\<close>

theorem report_invariant_start:
  "report_invariant (batch_log (fst (snd (start lib set_order subclasses self w))))"
proof -
  define self1 where "self1 = self\<lparr>batch_log := clear (batch_log self)\<rparr>"
  have inv1: "report_invariant (batch_log self1)"
    by (simp add: self1_def report_invariant_clear)
  show ?thesis
  proof (cases "update_status_incr self1 w")
    case (Inl e)
    with inv1 show ?thesis by (simp add: start_def self1_def)
  next
    case (Inr self2)
    from batch_log_update_status_incr [OF Inr] inv1
    have inv2: "report_invariant (batch_log self2)" by simp
    obtain self3 w3 where u: "update_status_value self2 (Some 0) w = (self3, w3)"
      by (cases "update_status_value self2 (Some 0) w")
    then have "batch_log self3 = batch_log self2"
      using batch_log_update_status_value [of self2 "Some 0" w] by simp
    with inv2 have inv3: "report_invariant (batch_log self3)" by simp
    define self4 where "self4 = self3\<lparr>batch_log := (batch_log self3)\<lparr>start_time := clock w3\<rparr>\<rparr>"
    have "report_invariant (batch_log self4) = report_invariant (batch_log self3)"
      by (rule report_invariant_cong) (simp_all add: self4_def)
    with inv3 have inv4: "report_invariant (batch_log self4)" by simp
    define acts where "acts = get_subclass_actions_to_perform set_order subclasses self4"
    obtain err self5 w5 where r: "run_dirs self4 acts (dirs self4) w3 = (err, self5, w5)"
      by (cases "run_dirs self4 acts (dirs self4) w3")
    from run_dirs_invariant [OF inv4, of acts "dirs self4" w3] r
    have inv5: "report_invariant (batch_log self5)" by simp
    have st: "start lib set_order subclasses self w =
                (case err of Some e \<Rightarrow> (Some e, self5, w5) | None \<Rightarrow> finish lib self5 w5)"
      using Inr u r unfolding self1_def self4_def acts_def
      by (simp add: start_def Let_def split: option.splits)
    show ?thesis
    proof (cases err)
      case None
      with st finish_invariant [OF inv5, of lib w5] show ?thesis by simp
    next
      case (Some e)
      with st inv5 show ?thesis by simp
    qed
  qed
qed

subsection \<open>A run without files\<close>

lemma py_float_0: "py_float 0 = 0"
  by (simp add: py_float_def round_double_def)

lemma get_image_files_batch_log:
  "get_image_files (self\<lparr>batch_log := lg\<rparr>) d w = get_image_files self d w"
  by (simp add: get_image_files_def Let_def split: sum.splits)

lemma count_image_files_batch_log:
  "count_image_files (self\<lparr>batch_log := lg\<rparr>) ds w n = count_image_files self ds w n"
  by (induction ds arbitrary: n) (simp_all add: get_image_files_batch_log split: sum.splits)

lemma get_image_files_missing:
  "\<not> os_path_exists w d \<Longrightarrow> get_image_files self d w = Inr []"
  by (simp add: get_image_files_def)

lemma start_no_files:
  assumes "count_image_files self (dirs self) w 0 = Inr 0"
  shows "start lib set_order subclasses self w =
           (Some ZeroDivisionError, self\<lparr>batch_log := clear (batch_log self)\<rparr>, w)"
  using assms
  by (simp add: start_def update_status_incr_def count_image_files_batch_log py_float_0
        py_float_div_def)

text \<open>
  Claim C1, evaluated where it fails. The only configured directory does not exist, so it
  contributes no file and no error; the total is zero, \<^verbatim>\<open>100.0 / float(file_count)\<close>
  raises \<^verbatim>\<open>ZeroDivisionError\<close>, and \<^verbatim>\<open>start\<close> ends there: the log has been cleared,
  nothing else has happened, no progress value has been reported.
\<close>

theorem start_without_files:
  "get_image_files (example_batch [''/no/such/dir''] None) ''/no/such/dir'' (example_world ''a.png'' 20)
     = Inr [] \<and>
   start (example_library (example_image ''RGB'' 4 4 []) 10) id
     (subclasses_of_Base_Image_Action (example_library (example_image ''RGB'' 4 4 []) 10))
     (example_batch [''/no/such/dir''] None) (example_world ''a.png'' 20) =
   (Some ZeroDivisionError,
    (example_batch [''/no/such/dir''] None)
      \<lparr>batch_log := clear (batch_log (example_batch [''/no/such/dir''] None))\<rparr>,
    example_world ''a.png'' 20)"
proof -
  have m: "\<not> os_path_exists (example_world ''a.png'' 20) ''/no/such/dir''"
    by (simp add: os_path_exists_def example_world_def)
  have g: "get_image_files (example_batch [''/no/such/dir''] None) ''/no/such/dir''
             (example_world ''a.png'' 20) = Inr []"
    by (rule get_image_files_missing [OF m])
  have d: "dirs (example_batch [''/no/such/dir''] None) = [''/no/such/dir'']"
    by (simp add: example_batch_def)
  have "count_image_files (example_batch [''/no/such/dir''] None)
          (dirs (example_batch [''/no/such/dir''] None)) (example_world ''a.png'' 20) 0 = Inr 0"
    by (simp add: d g)
  from start_no_files [OF this] g show ?thesis by simp
qed

subsection \<open>A run in which an action raises\<close>

lemma run_actions_append:
  "run_actions self (xs @ ys) image_obj w =
     (case run_actions self xs image_obj w of
        (None, self1, image_obj1, w1) \<Rightarrow> run_actions self1 ys image_obj1 w1
      | (Some e, r) \<Rightarrow> (Some e, r))"
  by (induction xs arbitrary: self image_obj w)
     (auto simp: Let_def split: prod.splits sum.splits option.splits)

lemma run_files_append:
  "run_files self acts (xs @ ys) w =
     (case run_files self acts xs w of
        (None, self1, w1) \<Rightarrow> run_files self1 acts ys w1
      | (Some e, r) \<Rightarrow> (Some e, r))"
  by (induction xs arbitrary: self w)
     (auto simp: Let_def split: prod.splits sum.splits option.splits)

lemma run_dirs_append:
  "run_dirs self acts (xs @ ys) w =
     (case run_dirs self acts xs w of
        (None, self1, w1) \<Rightarrow> run_dirs self1 acts ys w1
      | (Some e, r) \<Rightarrow> (Some e, r))"
  by (induction xs arbitrary: self w)
     (auto simp: Let_def split: prod.splits sum.splits option.splits)

lemma dirs_update_status_incr:
  "update_status_incr self w = Inr self' \<Longrightarrow> dirs self' = dirs self"
  by (auto simp: update_status_incr_def split: sum.splits)

lemma dirs_update_status_value:
  "update_status_value self v w = (self', w') \<Longrightarrow> dirs self' = dirs self"
  by (auto simp: update_status_value_def Let_def split: option.splits if_splits)

lemma files_update_status_msg: "files (update_status_msg self msg w) = files w"
  by (simp add: update_status_msg_def split: option.splits)

lemma files_update_status_value: "files (snd (update_status_value self v w)) = files w"
  by (simp add: update_status_value_def Let_def split: option.splits)

lemma run_actions_frame:
  assumes "\<forall>a \<in> set acts. \<forall>img w0. files (snd (snd (execute a img w0))) p = files w0 p"
  shows "files (snd (snd (snd (run_actions self acts image_obj w)))) p = files w p"
  using assms
proof (induction acts arbitrary: self image_obj w)
  case Nil
  then show ?case by simp
next
  case (Cons a acts)
  let ?w1 = "update_status_msg self (status_msg a @ '': '' @ os_path_basename (filename image_obj)) w"
  obtain r image_obj1 w2 where ex: "execute a image_obj ?w1 = (r, image_obj1, w2)"
    by (cases "execute a image_obj ?w1")
  from Cons.prems have "files (snd (snd (execute a image_obj ?w1))) p = files ?w1 p" by simp
  with ex have w2: "files w2 p = files w p"
    by (simp add: files_update_status_msg)
  from Cons.prems have rest: "\<forall>a \<in> set acts. \<forall>img w0. files (snd (snd (execute a img w0))) p = files w0 p"
    by simp
  show ?case
  proof (cases r)
    case (Inl e)
    with ex w2 show ?thesis by simp
  next
    case (Inr res)
    obtain success results where res: "res = (success, results)" by (cases res)
    from Cons.IH [OF rest] w2 ex Inr res show ?thesis
      by (simp add: Let_def)
  qed
qed

lemma run_files_frame:
  assumes "\<forall>a \<in> set acts. \<forall>img w0. files (snd (snd (execute a img w0))) p = files w0 p"
  shows "files (snd (snd (run_files self acts fs w))) p = files w p"
proof (induction fs arbitrary: self w)
  case Nil
  then show ?case by simp
next
  case (Cons f fs)
  obtain self1 w1 where u: "update_status_value self None w = (self1, w1)"
    by (cases "update_status_value self None w")
  then have w1: "files w1 = files w"
    using files_update_status_value [of self None w] by simp
  show ?case
  proof (cases "Image_Object_init w1 f")
    case (Inl e)
    with u w1 show ?thesis by simp
  next
    case (Inr image_obj)
    obtain err self2 image_obj1 w2 where
      r: "run_actions self1 acts image_obj w1 = (err, self2, image_obj1, w2)"
      by (cases "run_actions self1 acts image_obj w1")
    from run_actions_frame [OF assms, of self1 image_obj w1] r w1
    have w2: "files w2 p = files w p" by simp
    show ?thesis
    proof (cases err)
      case None
      with u Inr r w2 Cons.IH [of self2 w2] show ?thesis by simp
    next
      case (Some e)
      with u Inr r w2 show ?thesis by simp
    qed
  qed
qed

lemma run_dirs_frame:
  assumes "\<forall>a \<in> set acts. \<forall>img w0. files (snd (snd (execute a img w0))) p = files w0 p"
  shows "files (snd (snd (run_dirs self acts ds w))) p = files w p"
proof (induction ds arbitrary: self w)
  case Nil
  then show ?case by simp
next
  case (Cons d ds)
  show ?case
  proof (cases "get_image_files self d w")
    case (Inl e)
    then show ?thesis by simp
  next
    case (Inr fs)
    obtain err self1 w1 where r: "run_files self acts fs w = (err, self1, w1)"
      by (cases "run_files self acts fs w")
    from run_files_frame [OF assms, of self fs w] r
    have w1: "files w1 p = files w p" by simp
    show ?thesis
    proof (cases err)
      case None
      with Inr r w1 Cons.IH [of self1 w1] show ?thesis by simp
    next
      case (Some e)
      with Inr r w1 show ?thesis by simp
    qed
  qed
qed

lemma get_subclass_actions_subset:
  assumes "\<forall>xs. mset (set_order xs) = mset xs"
  shows "set (get_subclass_actions_to_perform set_order subclasses self) \<subseteq> set subclasses"
  using set_order_set [OF assms] by (auto simp: get_subclass_actions_to_perform_def)

lemma start_abort_frame:
  assumes abort: "start lib set_order subclasses self w = (Some e, self', w')"
    and order: "\<forall>xs. mset (set_order xs) = mset xs"
    and frame: "\<forall>a \<in> set subclasses. \<forall>img w0. files (snd (snd (execute a img w0))) p = files w0 p"
  shows "files w' p = files w p"
proof -
  define self1 where "self1 = self\<lparr>batch_log := clear (batch_log self)\<rparr>"
  show ?thesis
  proof (cases "update_status_incr self1 w")
    case (Inl e1)
    with abort show ?thesis by (simp add: start_def self1_def)
  next
    case (Inr self2)
    obtain self3 w3 where u: "update_status_value self2 (Some 0) w = (self3, w3)"
      by (cases "update_status_value self2 (Some 0) w")
    then have w3: "files w3 = files w"
      using files_update_status_value [of self2 "Some 0" w] by simp
    define self4 where "self4 = self3\<lparr>batch_log := (batch_log self3)\<lparr>start_time := clock w3\<rparr>\<rparr>"
    define acts where "acts = get_subclass_actions_to_perform set_order subclasses self4"
    from get_subclass_actions_subset [OF order] frame
    have fr: "\<forall>a \<in> set acts. \<forall>img w0. files (snd (snd (execute a img w0))) p = files w0 p"
      unfolding acts_def by blast
    obtain err self5 w5 where r: "run_dirs self4 acts (dirs self4) w3 = (err, self5, w5)"
      by (cases "run_dirs self4 acts (dirs self4) w3")
    from run_dirs_frame [OF fr, of self4 "dirs self4" w3] r w3
    have w5: "files w5 p = files w p" by simp
    have st: "start lib set_order subclasses self w =
                (case err of Some e \<Rightarrow> (Some e, self5, w5) | None \<Rightarrow> finish lib self5 w5)"
      using Inr u r unfolding self1_def self4_def acts_def
      by (simp add: start_def Let_def split: option.splits)
    show ?thesis
    proof (cases err)
      case (Some e5)
      with st abort w5 show ?thesis by simp
    next
      case None
      with st abort have "finish lib self5 w5 = (Some e, self', w')" by simp
      then have "w' = w5"
        by (auto simp: finish_def Let_def split: sum.splits prod.splits)
      with w5 show ?thesis by simp
    qed
  qed
qed

lemma write_file_frame:
  "write_file w q data = Inr w' \<Longrightarrow> q \<noteq> p \<Longrightarrow> files w' p = files w p"
  by (auto simp: write_file_def split: option.splits if_splits)

lemma Image_Object_save_frame:
  assumes "Image_Object_save lib self None optimize w = (r, self', w')"
    and "filename self \<noteq> p"
  shows "files w' p = files w p"
  using assms
  by (auto simp: Image_Object_save_def update_is_editable_def Image_save_def Let_def
           split: sum.splits option.splits if_splits prod.splits
           dest: write_file_frame)

lemma compress_frame:
  assumes "\<not> endswith (lower p) ''.png''"
  shows "files (snd (snd (Action_Compress_PNG_execute lib image_obj w))) p = files w p"
proof (cases "endswith (lower (filename image_obj)) ''.png''")
  case False
  then show ?thesis by (simp add: Action_Compress_PNG_execute_def)
next
  case True
  with assms have ne: "filename image_obj \<noteq> p" by auto
  show ?thesis
  proof (cases "os_stat w (filename image_obj)")
    case (Inl e)
    with True show ?thesis
      by (simp add: Action_Compress_PNG_execute_def)
  next
    case st: (Inr file_stats)
    show ?thesis
    proof (cases "if \<not> is_open image_obj then Image_Object_open lib image_obj w else Inr image_obj")
      case (Inl e)
      with True st show ?thesis
        by (simp add: Action_Compress_PNG_execute_def Let_def)
    next
      case (Inr image_obj1)
      have f1: "filename image_obj1 = filename image_obj"
        by (rule ensure_open_filename [OF Inr])
      obtain s image_obj2 w2 where
        sv: "Image_Object_save lib image_obj1 None True w = (s, image_obj2, w2)"
        by (cases "Image_Object_save lib image_obj1 None True w")
      from Image_Object_save_frame [OF sv] f1 ne have w2: "files w2 p = files w p" by simp
      show ?thesis
      proof (cases s)
        case (Inl e)
        with True st Inr sv w2 show ?thesis
          by (simp add: Action_Compress_PNG_execute_def Let_def)
      next
        case u: (Inr u)
        show ?thesis
        proof (cases "os_stat w2 (filename image_obj2)")
          case (Inl e)
          with True st Inr sv u w2 show ?thesis
            by (simp add: Action_Compress_PNG_execute_def Let_def)
        next
          case st2: (Inr file_stats2)
          with True st Inr sv u w2 show ?thesis
            by (simp add: Action_Compress_PNG_execute_def Let_def py_float_div_def)
        qed
      qed
    qed
  qed
qed

lemma check_power_of_2_world:
  "snd (snd (Action_Check_Power_Of_2_execute lib image_obj w)) = w"
  by (auto simp: Action_Check_Power_Of_2_execute_def Let_def
           split: sum.splits option.splits prod.splits if_splits)

lemma verify_pbr_world:
  "snd (snd (Action_Verify_PBR_Values_execute lib image_obj w)) = w"
  by (auto simp: Action_Verify_PBR_Values_execute_def Let_def
           split: sum.splits option.splits prod.splits if_splits)

lemma builtin_frame:
  assumes "\<not> endswith (lower p) ''.png''"
  shows "\<forall>a \<in> set (subclasses_of_Base_Image_Action lib).
           \<forall>img w0. files (snd (snd (execute a img w0))) p = files w0 p"
  using compress_frame [OF assms]
  by (simp add: subclasses_of_Base_Image_Action_def builtin_attrs check_power_of_2_world
        verify_pbr_world)

lemma builtin_distinct: "distinct (subclasses_of_Base_Image_Action lib)"
proof -
  have "distinct (map class_name (subclasses_of_Base_Image_Action lib))"
    by (simp add: subclasses_of_Base_Image_Action_def builtin_attrs)
  then show ?thesis by (simp add: distinct_map)
qed

text \<open>
  Claim C2. Take any run of \<^verbatim>\<open>start\<close> in which a call of some action's
  \<^verbatim>\<open>execute\<close> raises: the scan succeeded, the directories, files and actions before
  the call were processed without an exception (\<open>dirs_before\<close>, \<open>files_before\<close>,
  \<open>acts_before\<close>), and the call of action \<open>a\<close> on file \<open>f\<close> raises \<open>e\<close>. Then
  \<^verbatim>\<open>start\<close> itself ends with \<open>e\<close>. The batch it leaves is the one from just before the
  call, so nothing was logged for that call and \<open>completed\<close> was not set; the world it
  leaves is the one the failing call left, whatever \<open>acts_after\<close>, \<open>files_after\<close>
  and \<open>dirs_after\<close> are: no later action, file or directory is processed and the log is
  not saved. In particular a file that no action writes (the report file) has the
  content it had before \<^verbatim>\<open>start\<close>.
\<close>

theorem execute_error_aborts_run:
  assumes cleared: "update_status_incr (self\<lparr>batch_log := clear (batch_log self)\<rparr>) w = Inr self2"
    and zero: "update_status_value self2 (Some 0) w = (self3, w3)"
    and started: "self4 = self3\<lparr>batch_log := (batch_log self3)\<lparr>start_time := clock w3\<rparr>\<rparr>"
    and acts: "get_subclass_actions_to_perform set_order subclasses self4 = acts_before @ a # acts_after"
    and ds: "dirs self = dirs_before @ d # dirs_after"
    and dirs_before: "run_dirs self4 (acts_before @ a # acts_after) dirs_before w3 = (None, self5, w5)"
    and listing: "get_image_files self5 d w5 = Inr (files_before @ f # files_after)"
    and files_before: "run_files self5 (acts_before @ a # acts_after) files_before w5 = (None, self6, w6)"
    and progress: "update_status_value self6 None w6 = (self7, w7)"
    and object: "Image_Object_init w7 f = Inr image_obj"
    and actions_before: "run_actions self7 acts_before image_obj w7 = (None, self8, image_obj8, w8)"
    and raises: "execute a image_obj8
                   (update_status_msg self8
                      (status_msg a @ '': '' @ os_path_basename (filename image_obj8)) w8) =
                 (Inl e, image_obj9, w9)"
  shows "start lib set_order subclasses self w = (Some e, self8, w9) \<and>
         ((\<forall>xs. mset (set_order xs) = mset xs) \<and>
          (\<forall>a \<in> set subclasses. \<forall>img w0. files (snd (snd (execute a img w0))) p = files w0 p) \<longrightarrow>
          files w9 p = files w p)"
proof -
  let ?acts = "acts_before @ a # acts_after"
  have ra: "run_actions self7 ?acts image_obj w7 = (Some e, self8, image_obj9, w9)"
    using actions_before raises by (simp add: run_actions_append)
  have "run_files self6 ?acts (f # files_after) w6 = (Some e, self8, w9)"
    using progress object ra by simp
  then have rf: "run_files self5 ?acts (files_before @ f # files_after) w5 = (Some e, self8, w9)"
    using files_before by (simp add: run_files_append)
  have "run_dirs self5 ?acts (d # dirs_after) w5 = (Some e, self8, w9)"
    using listing rf by simp
  then have rd: "run_dirs self4 ?acts (dirs_before @ d # dirs_after) w3 = (Some e, self8, w9)"
    using dirs_before by (simp add: run_dirs_append)
  have "dirs self4 = dirs self"
    using dirs_update_status_incr [OF cleared] dirs_update_status_value [OF zero] started by simp
  with rd ds have "run_dirs self4 ?acts (dirs self4) w3 = (Some e, self8, w9)" by simp
  then have st: "start lib set_order subclasses self w = (Some e, self8, w9)"
    using cleared zero acts unfolding started
    by (simp add: start_def Let_def)
  from st start_abort_frame [OF st] show ?thesis by blast
qed

theorem execute_error_aborts_run_witness:
  "fst (Action_Verify_PBR_Values_execute (example_library (example_image ''L'' 4 4 []) 10)
          ((example_object ''tex/x_mra.png'')
             \<lparr>image_pil := Some (example_image ''L'' 4 4 []), is_editable := True, is_open := True\<rparr>)
          (example_tree\<lparr>files := (files example_tree)
             (''tex/x_mra.png'' \<mapsto> \<lparr>content = replicate 10 0, writable = True\<rparr>)\<rparr>)) =
     Inl UnboundLocalError \<and>
   fst (start (example_library (example_image ''L'' 4 4 []) 10) id
          (subclasses_of_Base_Image_Action (example_library (example_image ''L'' 4 4 []) 10))
          (example_batch [''tex'', ''more''] (Some [''compress_png'', ''verify_pbr_values'']))
          example_tree) = Some UnboundLocalError \<and>
   results_for (batch_log (fst (snd
     (start (example_library (example_image ''L'' 4 4 []) 10) id
          (subclasses_of_Base_Image_Action (example_library (example_image ''L'' 4 4 []) 10))
          (example_batch [''tex'', ''more''] (Some [''compress_png'', ''verify_pbr_values'']))
          example_tree)))) ''tex/x_mra.png'' =
     [(''compress_png'', True, ''Compression saved .0 kbs on disk'')] \<and>
   results_for (batch_log (fst (snd
     (start (example_library (example_image ''L'' 4 4 []) 10) id
          (subclasses_of_Base_Image_Action (example_library (example_image ''L'' 4 4 []) 10))
          (example_batch [''tex'', ''more''] (Some [''compress_png'', ''verify_pbr_values'']))
          example_tree)))) ''tex/y.png'' = [] \<and>
   \<not> completed (batch_log (fst (snd
     (start (example_library (example_image ''L'' 4 4 []) 10) id
          (subclasses_of_Base_Image_Action (example_library (example_image ''L'' 4 4 []) 10))
          (example_batch [''tex'', ''more''] (Some [''compress_png'', ''verify_pbr_values'']))
          example_tree)))) \<and>
   files (snd (snd
     (start (example_library (example_image ''L'' 4 4 []) 10) id
          (subclasses_of_Base_Image_Action (example_library (example_image ''L'' 4 4 []) 10))
          (example_batch [''tex'', ''more''] (Some [''compress_png'', ''verify_pbr_values'']))
          example_tree))) ''report.xml'' = None"
proof -
  let ?im = "example_image ''L'' 4 4 []"
  let ?lib = "example_library ?im 10"
  let ?subs = "subclasses_of_Base_Image_Action ?lib"
  let ?b = "example_batch [''tex'', ''more''] (Some [''compress_png'', ''verify_pbr_values''])"
  let ?f = "''tex/x_mra.png''"
  define self2 where "self2 = ?b\<lparr>batch_log := clear (batch_log ?b), status_incr := 50\<rparr>"
  define self4 where
    "self4 = self2\<lparr>status_value := 0, batch_log := (batch_log self2)\<lparr>start_time := 0\<rparr>\<rparr>"
  define self7 where "self7 = self4\<lparr>status_value := 50\<rparr>"
  define self8 where
    "self8 = self7\<lparr>batch_log := add_file_result (batch_log self7) ?f ''compress_png'' True
                                  ''Compression saved .0 kbs on disk''\<rparr>"
  define obj8 where
    "obj8 = (example_object ?f)\<lparr>image_pil := Some ?im, is_editable := True, is_open := True\<rparr>"
  define w8 where
    "w8 = example_tree\<lparr>files := (files example_tree)
            (?f \<mapsto> \<lparr>content = replicate 10 0, writable = True\<rparr>)\<rparr>"
  have strings:
    "os_path_join ''tex'' ''x_mra.png'' = ''tex/x_mra.png''"
    "os_path_join ''tex'' ''y.png'' = ''tex/y.png''"
    "os_path_splitext ''tex/x_mra.png'' = (''tex/x_mra'', ''.png'')"
    "os_path_splitext ''tex/y.png'' = (''tex/y'', ''.png'')"
    "os_path_basename ''tex/x_mra.png'' = ''x_mra.png''"
    "endswith (lower ''tex/x_mra.png'') ''.png'' = True"
    "endswith (lower ''tex/x_mra.png'') ''_mra.png'' = True"
    "endswith (lower ''report.xml'') ''.png'' = False"
    by code_simp+
  have numbers:
    "py_float_div 100 (py_float 2) = Inr 50"
    "py_float_add 0 50 = 50"
    "str_int (py_int (py_float_mul (round_double (py_float 10 / 1024)) (py_float 100))) = ''0''"
    by code_simp+
  have fields [simp]:
    "headless ?b = False" "frame ?b = None" "dirs ?b = [''tex'', ''more'']"
    "extensions ?b = [''png'']" "actions ?b = Some [''compress_png'', ''verify_pbr_values'']"
    "status_value ?b = 0" "batch_log ?b = Log_File_init ''report.xml''"
    by (simp_all add: example_batch_def)
  have tree [simp]: "clock example_tree = 0"
    "files example_tree ''tex/x_mra.png'' = Some \<lparr>content = replicate 20 0, writable = True\<rparr>"
    "files example_tree ''report.xml'' = None"
    by (simp_all add: example_tree_def)
  have listing: "\<And>self. extensions self = [''png''] \<Longrightarrow>
                   get_image_files self ''tex'' example_tree = Inr [''tex/x_mra.png'', ''tex/y.png'']"
    by (simp add: get_image_files_def os_path_exists_def os_listdir_def os_path_isfile_def
          example_tree_def strings)
  have missing: "\<And>self. get_image_files self ''more'' example_tree = Inr []"
    by (simp add: get_image_files_def os_path_exists_def example_tree_def)
  have cleared: "update_status_incr (?b\<lparr>batch_log := clear (batch_log ?b)\<rparr>) example_tree = Inr self2"
    by (simp add: update_status_incr_def listing missing numbers self2_def)
  have zero: "update_status_value self2 (Some 0) example_tree = (self2\<lparr>status_value := 0\<rparr>, example_tree)"
    by (simp add: update_status_value_def self2_def)
  have started: "self4 = (self2\<lparr>status_value := 0\<rparr>)
                   \<lparr>batch_log := (batch_log (self2\<lparr>status_value := 0\<rparr>))\<lparr>start_time := clock example_tree\<rparr>\<rparr>"
    by (simp add: self4_def)
  have acts: "get_subclass_actions_to_perform id ?subs self4 =
                [Action_Compress_PNG ?lib] @ Action_Verify_PBR_Values ?lib # []"
    using builtin_distinct [of ?lib]
    by (simp add: get_subclass_actions_to_perform_def subclasses_of_Base_Image_Action_def
          builtin_attrs self4_def self2_def)
  have ds: "dirs ?b = [] @ ''tex'' # [''more'']"
    by simp
  have dirs_before: "run_dirs self4 ([Action_Compress_PNG ?lib] @ Action_Verify_PBR_Values ?lib # []) []
                       example_tree = (None, self4, example_tree)"
    by simp
  have listing4: "get_image_files self4 ''tex'' example_tree = Inr ([] @ ''tex/x_mra.png'' # [''tex/y.png''])"
    by (simp add: listing self4_def self2_def)
  have files_before: "run_files self4 ([Action_Compress_PNG ?lib] @ Action_Verify_PBR_Values ?lib # []) []
                        example_tree = (None, self4, example_tree)"
    by simp
  have progress: "update_status_value self4 None example_tree = (self7, example_tree)"
    by (simp add: update_status_value_def self7_def self4_def self2_def numbers)
  have object: "Image_Object_init example_tree ''tex/x_mra.png'' = Inr (example_object ''tex/x_mra.png'')"
    by (simp add: Image_Object_init_def os_path_exists_def example_object_def)
  have quiet: "\<And>msg w. update_status_msg self7 msg w = w" "\<And>msg w. update_status_msg self8 msg w = w"
    by (simp_all add: update_status_msg_def self8_def self7_def self4_def self2_def)
  have compress: "Action_Compress_PNG_execute ?lib (example_object ''tex/x_mra.png'') example_tree =
                    (Inr (True, ''Compression saved .0 kbs on disk''), obj8, w8)"
    by (simp add: Action_Compress_PNG_execute_def example_library_def example_object_def
          os_stat_def Image_Object_open_def Image_open_def Image_Object_save_def
          update_is_editable_def Image_save_def write_file_def Let_def py_float_div_def
          strings numbers obj8_def w8_def)
  have fo: "filename obj8 = ''tex/x_mra.png''"
    by (simp add: obj8_def example_object_def)
  have actions_before: "run_actions self7 [Action_Compress_PNG ?lib] (example_object ''tex/x_mra.png'')
                          example_tree = (None, self8, obj8, w8)"
    by (simp add: quiet builtin_attrs compress self8_def fo)
  have pbr: "Action_Verify_PBR_Values_execute ?lib obj8 w8 = (Inl UnboundLocalError, obj8, w8)"
    by (simp add: Action_Verify_PBR_Values_execute_def obj8_def example_object_def
          split_red_example strings)
  have raises: "execute (Action_Verify_PBR_Values ?lib) obj8
                  (update_status_msg self8
                     (status_msg (Action_Verify_PBR_Values ?lib) @ '': '' @
                      os_path_basename (filename obj8)) w8) =
                (Inl UnboundLocalError, obj8, w8)"
    by (simp add: quiet builtin_attrs pbr fo)
  have order: "\<forall>xs :: action_class list. mset (id xs) = mset xs"
    by simp
  have frame: "\<forall>a \<in> set ?subs. \<forall>img w0. files (snd (snd (execute a img w0))) ''report.xml'' = files w0 ''report.xml''"
    by (rule builtin_frame) (simp add: strings)
  note t = execute_error_aborts_run
             [OF cleared zero started acts ds dirs_before listing4 files_before progress object
                 actions_before raises, of ?lib "''report.xml''"]
  from t have st: "start ?lib id ?subs ?b example_tree = (Some UnboundLocalError, self8, w8)"
    by blast
  from t order frame have unsaved: "files w8 ''report.xml'' = files example_tree ''report.xml''"
    by blast
  have r0: "\<And>name. results_for (batch_log self7) name = []"
    by (simp add: self7_def self4_def self2_def results_for_def clear_def)
  have r1: "results_for (batch_log self8) ''tex/x_mra.png'' =
              [(''compress_png'', True, ''Compression saved .0 kbs on disk'')]"
    by (simp add: self8_def results_for_add_file_result r0)
  have r2: "results_for (batch_log self8) ''tex/y.png'' = []"
    by (simp add: self8_def results_for_add_file_result r0)
  have c: "\<not> completed (batch_log self8)"
    by (simp add: self8_def self7_def self4_def self2_def add_file_result_def clear_def
          Log_File_init_def)
  from pbr st r1 r2 c unsaved show ?thesis
    by (simp add: obj8_def w8_def)
qed

end
